theory Spec2Isabelle
  imports Complex_Main "HOL-Library.Multiset" "HOL-Library.Sublist"
begin

section \<open>JavaScript strings and arrays\<close>

text \<open>
  A JavaScript string is a sequence of UTF-16 code units and \<open>length\<close>, \<open>substring\<close>
  and \<open>split\<close> count code units. A string is modelled as a list of units
  (\<^typ>\<open>string\<close>); nothing below depends on what a unit is, only on the newline
  and space units being units like any other.

  A value that may be \<open>undefined\<close> or \<open>null\<close> is an \<^typ>\<open>'a option\<close>. The operator
  \<open>a || b\<close> yields \<open>b\<close> when \<open>a\<close> is falsy; for a string that is \<open>undefined\<close>,
  \<open>null\<close> and the empty string, for an array only \<open>undefined\<close> and \<open>null\<close>.
\<close>

definition newline :: char where
  "newline = CHR 0x0A"

definition or_str :: "string option \<Rightarrow> string \<Rightarrow> string" where
  "or_str a b = (case a of None \<Rightarrow> b | Some s \<Rightarrow> if s = [] then b else s)"

definition or_str_opt :: "string option \<Rightarrow> string option \<Rightarrow> string option" where
  "or_str_opt a b = (case a of None \<Rightarrow> b | Some s \<Rightarrow> if s = [] then b else Some s)"

definition or_arr :: "'a list option \<Rightarrow> 'a list \<Rightarrow> 'a list" where
  "or_arr a b = (case a of None \<Rightarrow> b | Some xs \<Rightarrow> xs)"

text \<open>\<open>s.substring(0, n)\<close> and \<open>xs.slice(0, n)\<close> for a non-negative integer \<open>n\<close>.\<close>

definition substring0 :: "nat \<Rightarrow> string \<Rightarrow> string" where
  "substring0 n s = take n s"

definition slice0 :: "nat \<Rightarrow> 'a list \<Rightarrow> 'a list" where
  "slice0 n xs = take n xs"

text \<open>\<open>s.split(sep)\<close> for a one-unit separator: never the empty array.\<close>

fun split :: "char \<Rightarrow> string \<Rightarrow> string list" where
  "split sep [] = [[]]"
| "split sep (c # cs) =
     (if c = sep then [] # split sep cs
      else (case split sep cs of [] \<Rightarrow> [[c]] | l # ls \<Rightarrow> (c # l) # ls))"

text \<open>\<open>xs.join(sep)\<close>.\<close>

fun join :: "string \<Rightarrow> string list \<Rightarrow> string" where
  "join sep [] = []"
| "join sep [x] = x"
| "join sep (x # y # ys) = x @ sep @ join sep (y # ys)"

text \<open>
  \<open>xs[0]\<close> inside a template literal: an absent element prints as \<open>undefined\<close>.
\<close>

definition first_or_undefined :: "string list \<Rightarrow> string" where
  "first_or_undefined xs = (case xs of [] \<Rightarrow> ''undefined'' | x # _ \<Rightarrow> x)"

text \<open>
  \<open>truncateText(text, maxLength, suffix = '...')\<close> of the helpers. \<open>substring\<close> clamps
  a negative end to 0, which is what subtraction on \<^typ>\<open>nat\<close> does.
\<close>

definition truncateText :: "string \<Rightarrow> nat \<Rightarrow> string" where
  "truncateText txt maxLength =
     (if length txt \<le> maxLength then txt
      else substring0 (maxLength - length ''...'') txt @ ''...'')"


section \<open>Content artifact and platform payloads\<close>

record seo_metadata =
  seo_title :: "string option"
  seo_description :: "string option"
  seo_hashtags :: "string list option"

text \<open>
  The artifact. The generation steps' outputs are opaque to the orchestrator and kept as
  strings; \<open>seoMetadata\<close> may be absent on an artifact that a caller sends in.
\<close>

record content =
  c_id :: string
  c_topic :: "string option"
  c_niche :: string
  c_script :: string
  c_voiceover :: string
  c_visuals :: string
  c_thumbnails :: string
  c_seoMetadata :: "seo_metadata option"
  c_brollSuggestions :: string
  c_duration :: nat
  c_platforms :: "string list"
  c_status :: string

text \<open>\<open>content.seoMetadata?.field\<close>: \<open>undefined\<close> when \<open>seoMetadata\<close> is absent.\<close>

definition seo_field :: "(seo_metadata \<Rightarrow> 'a option) \<Rightarrow> content \<Rightarrow> 'a option" where
  "seo_field f c = (case c_seoMetadata c of None \<Rightarrow> None | Some m \<Rightarrow> f m)"

text \<open>
  One record for the four payload shapes; a field that a platform's payload does not
  have is \<open>None\<close>, as reading it gives \<open>undefined\<close>.
\<close>

record payload =
  p_caption :: "string option"
  p_message :: "string option"
  p_text :: "string option"
  p_hashtags :: "string list"
  p_aspectRatio :: "string option"
  p_duration :: "nat option"
  p_visualStyle :: string


section \<open>Platform repurposers\<close>

text \<open>The string each transform assembles before it cuts it to the platform's length.\<close>

definition instagram_caption :: "content \<Rightarrow> string" where
  "instagram_caption c =
     (let description = or_str (seo_field seo_description c) [];
          hashtags = or_arr (seo_field seo_hashtags c) []
      in first_or_undefined (split newline description) @ [newline, newline]
           @ join '' '' (slice0 10 hashtags))"

definition repurposeForInstagram :: "content \<Rightarrow> payload" where
  "repurposeForInstagram c =
     (let hashtags = or_arr (seo_field seo_hashtags c) [];
          caption = instagram_caption c
      in \<lparr> p_caption = Some (substring0 2200 caption), p_message = None, p_text = None,
           p_hashtags = slice0 30 hashtags, p_aspectRatio = Some ''9:16'',
           p_duration = Some 60, p_visualStyle = ''vertical'' \<rparr>)"

definition tiktok_caption :: "content \<Rightarrow> string" where
  "tiktok_caption c = or_str (or_str_opt (seo_field seo_title c) (c_topic c)) ''Video''"

definition repurposeForTikTok :: "content \<Rightarrow> payload" where
  "repurposeForTikTok c =
     (let caption = tiktok_caption c
      in \<lparr> p_caption = Some (substring0 150 caption), p_message = None, p_text = None,
           p_hashtags = slice0 10 (or_arr (seo_field seo_hashtags c) []),
           p_aspectRatio = Some ''9:16'', p_duration = Some 60,
           p_visualStyle = ''vertical-dynamic'' \<rparr>)"

definition facebook_description :: "content \<Rightarrow> string" where
  "facebook_description c = or_str (or_str_opt (seo_field seo_description c) (c_topic c)) []"

definition repurposeForFacebook :: "content \<Rightarrow> payload" where
  "repurposeForFacebook c =
     (let description = facebook_description c;
          hashtags = or_arr (seo_field seo_hashtags c) []
      in \<lparr> p_caption = None, p_message = Some (substring0 5000 description), p_text = None,
           p_hashtags = slice0 15 hashtags, p_aspectRatio = None, p_duration = None,
           p_visualStyle = ''square'' \<rparr>)"

definition linkedin_professionalTone :: "content \<Rightarrow> string" where
  "linkedin_professionalTone c =
     (let title = or_str (or_str_opt (seo_field seo_title c) (c_topic c))
                    ''Professional Content'';
          description = or_str (seo_field seo_description c) [];
          descriptionLines = join [newline] (slice0 3 (split newline description))
      in title @ [newline, newline] @ descriptionLines)"

definition repurposeForLinkedIn :: "content \<Rightarrow> payload" where
  "repurposeForLinkedIn c =
     (let professionalTone = linkedin_professionalTone c;
          hashtags = or_arr (seo_field seo_hashtags c) []
      in \<lparr> p_caption = None, p_message = None, p_text = Some (substring0 3000 professionalTone),
           p_hashtags = slice0 5 hashtags, p_aspectRatio = None, p_duration = None,
           p_visualStyle = ''professional'' \<rparr>)"

text \<open>
  \<open>repurposeContent\<close>: the loop over the requested names assigns the property of the
  result object that the \<open>switch\<close> selects; a name with no \<open>case\<close> assigns nothing.
  The result object is a map from property name to payload.
\<close>

definition repurpose_step :: "content \<Rightarrow> (string \<rightharpoonup> payload) \<Rightarrow> string \<Rightarrow> (string \<rightharpoonup> payload)" where
  "repurpose_step c repurposed platform =
     (if platform = ''instagram'' then repurposed(''instagram'' \<mapsto> repurposeForInstagram c)
      else if platform = ''tiktok'' then repurposed(''tiktok'' \<mapsto> repurposeForTikTok c)
      else if platform = ''facebook'' then repurposed(''facebook'' \<mapsto> repurposeForFacebook c)
      else if platform = ''linkedin'' then repurposed(''linkedin'' \<mapsto> repurposeForLinkedIn c)
      else repurposed)"

fun repurpose_loop :: "content \<Rightarrow> (string \<rightharpoonup> payload) \<Rightarrow> string list \<Rightarrow> (string \<rightharpoonup> payload)" where
  "repurpose_loop c repurposed [] = repurposed"
| "repurpose_loop c repurposed (platform # rest) =
     repurpose_loop c (repurpose_step c repurposed platform) rest"

definition repurposeContent :: "content \<Rightarrow> string list \<Rightarrow> (string \<rightharpoonup> payload)" where
  "repurposeContent c targetPlatforms = repurpose_loop c Map.empty targetPlatforms"

definition known_platforms :: "string set" where
  "known_platforms = {''instagram'', ''tiktok'', ''facebook'', ''linkedin''}"


section \<open>JavaScript numbers\<close>

text \<open>
  A JavaScript number is an IEEE 754 double: a finite value, \<open>Infinity\<close>, \<open>-Infinity\<close>
  or \<open>NaN\<close>. The three special values and the rules that produce and propagate them are
  modelled as IEEE 754 states them. Arithmetic on finite values is taken exact, over the
  reals: binary rounding, overflow to infinity and the sign of zero are left out (the one
  zero of the model stands for \<open>+0\<close>).
\<close>

datatype jsnum = Num real | PosInf | NegInf | NaN

text \<open>The sign of a value that is not \<open>NaN\<close>, and the infinity of a given sign.\<close>

definition sign_of :: "jsnum \<Rightarrow> real" where
  "sign_of v = (case v of Num a \<Rightarrow> sgn a | PosInf \<Rightarrow> 1 | NegInf \<Rightarrow> - 1 | NaN \<Rightarrow> 0)"

definition inf_of_sign :: "real \<Rightarrow> jsnum" where
  "inf_of_sign s = (if s = 0 then NaN else if 0 < s then PosInf else NegInf)"

fun js_neg :: "jsnum \<Rightarrow> jsnum" where
  "js_neg (Num a) = Num (- a)"
| "js_neg PosInf = NegInf"
| "js_neg NegInf = PosInf"
| "js_neg NaN = NaN"

fun js_add :: "jsnum \<Rightarrow> jsnum \<Rightarrow> jsnum" where
  "js_add NaN _ = NaN"
| "js_add _ NaN = NaN"
| "js_add (Num a) (Num b) = Num (a + b)"
| "js_add PosInf NegInf = NaN"
| "js_add NegInf PosInf = NaN"
| "js_add PosInf _ = PosInf"
| "js_add NegInf _ = NegInf"
| "js_add (Num a) b = b"

definition js_sub :: "jsnum \<Rightarrow> jsnum \<Rightarrow> jsnum" where
  "js_sub a b = js_add a (js_neg b)"

fun js_mul :: "jsnum \<Rightarrow> jsnum \<Rightarrow> jsnum" where
  "js_mul NaN _ = NaN"
| "js_mul _ NaN = NaN"
| "js_mul (Num a) (Num b) = Num (a * b)"
| "js_mul a b = inf_of_sign (sign_of a * sign_of b)"

text \<open>
  Division: a finite non-zero value over zero is the infinity of its sign, zero over zero
  and infinity over infinity are \<open>NaN\<close>, a finite value over an infinity is zero.
\<close>

fun js_div :: "jsnum \<Rightarrow> jsnum \<Rightarrow> jsnum" where
  "js_div NaN _ = NaN"
| "js_div _ NaN = NaN"
| "js_div (Num a) (Num b) = (if b = 0 then inf_of_sign (sgn a) else Num (a / b))"
| "js_div (Num a) _ = Num 0"
| "js_div a (Num b) = inf_of_sign (sign_of a * (if b < 0 then - 1 else 1))"
| "js_div a b = NaN"

text \<open>\<open>Math.log10\<close> and \<open>Math.max\<close> of two arguments.\<close>

fun js_log10 :: "jsnum \<Rightarrow> jsnum" where
  "js_log10 (Num a) = (if a < 0 then NaN else if a = 0 then NegInf else Num (log 10 a))"
| "js_log10 PosInf = PosInf"
| "js_log10 NegInf = NaN"
| "js_log10 NaN = NaN"

fun js_max :: "jsnum \<Rightarrow> jsnum \<Rightarrow> jsnum" where
  "js_max NaN _ = NaN"
| "js_max _ NaN = NaN"
| "js_max PosInf _ = PosInf"
| "js_max _ PosInf = PosInf"
| "js_max NegInf b = b"
| "js_max a NegInf = a"
| "js_max (Num a) (Num b) = Num (max a b)"

text \<open>
  The comparisons \<open>a > 0\<close> and \<open>a >= b\<close>: false whenever an operand is \<open>NaN\<close>.
\<close>

fun js_positive :: "jsnum \<Rightarrow> bool" where
  "js_positive (Num a) = (0 < a)"
| "js_positive PosInf = True"
| "js_positive _ = False"

fun js_ge :: "jsnum \<Rightarrow> jsnum \<Rightarrow> bool" where
  "js_ge NaN _ = False"
| "js_ge _ NaN = False"
| "js_ge PosInf _ = True"
| "js_ge _ NegInf = True"
| "js_ge (Num a) (Num b) = (b \<le> a)"
| "js_ge _ _ = False"

text \<open>
  For checking the exact model against the doubles at a given value: the double nearest
  to \<open>x\<close> (ties to the even significand), for \<open>2^e <= |x| < 2^(e+1)\<close> in the normal
  range, where neighbouring doubles are \<open>2^(e-52)\<close> apart.
\<close>

definition round_half_even :: "real \<Rightarrow> int" where
  "round_half_even x =
     (let n = \<lfloor>x\<rfloor>; f = x - of_int n
      in if f < 1 / 2 then n else if 1 / 2 < f then n + 1 else if even n then n else n + 1)"

definition ulp :: "int \<Rightarrow> real" where
  "ulp e = (if 52 \<le> e then 2 ^ nat (e - 52) else 1 / 2 ^ nat (52 - e))"

definition binary64 :: "int \<Rightarrow> real \<Rightarrow> real" where
  "binary64 e x = of_int (round_half_even (x / ulp e)) * ulp e"

text \<open>
  \<open>parseFloat(x.toFixed(2))\<close>. \<open>toFixed(2)\<close> prints the integer \<open>n\<close> for which
  \<open>n / 100\<close> is closest to the magnitude of \<open>x\<close>, the larger \<open>n\<close> on a tie, with two
  decimals and the sign of \<open>x\<close>; \<open>parseFloat\<close> reads that decimal back. The special
  values print as \<open>Infinity\<close>, \<open>-Infinity\<close> and \<open>NaN\<close> and read back as themselves.
  (From \<open>10^21\<close> on \<open>toFixed\<close> prints the number itself; every double that large is an
  integer, so that too is the number rounded to two decimals.)
\<close>

definition round2 :: "real \<Rightarrow> real" where
  "round2 x = sgn x * of_int \<lfloor>\<bar>x\<bar> * 100 + 1 / 2\<rfloor> / 100"

fun toFixed2 :: "jsnum \<Rightarrow> jsnum" where
  "toFixed2 (Num a) = Num (round2 a)"
| "toFixed2 v = v"


section \<open>Trend discovery and scoring\<close>

text \<open>
  A search result, a trend record (a search result with its metrics) and an analysed
  trend (a trend record with the two derived fields). \<open>publishedAt\<close> holds what
  \<open>new Date(publishedAt).getTime()\<close> yields: the timestamp in milliseconds, \<open>NaN\<close> for
  a date that does not parse. The counts are what \<open>parseInt\<close> yields: \<open>NaN\<close> for a
  statistic that the upstream record does not carry.
\<close>

record video =
  videoId :: string
  title :: string
  description :: string
  channelTitle :: string
  publishedAt :: jsnum

record trend = video +
  viewCount :: jsnum
  likeCount :: jsnum
  commentCount :: jsnum

record analyzed = trend +
  engagementRate :: jsnum
  trendScore :: jsnum

text \<open>
  \<open>calculateTrendScore\<close>; \<open>now\<close> is the value of \<open>Date.now()\<close>, which the code reads
  once for each record and the model takes to be the same for all records of one call.
\<close>

definition viewScore :: "'a trend_scheme \<Rightarrow> jsnum" where
  "viewScore t = js_div (js_log10 (viewCount t)) (Num 10)"

definition engagementScore :: "'a trend_scheme \<Rightarrow> jsnum" where
  "engagementScore t = js_div (js_add (likeCount t) (commentCount t)) (viewCount t)"

definition daysSincePublished :: "real \<Rightarrow> 'a trend_scheme \<Rightarrow> jsnum" where
  "daysSincePublished now t =
     js_div (js_sub (Num now) (publishedAt t)) (Num (1000 * 60 * 60 * 24))"

definition recencyScore :: "real \<Rightarrow> 'a trend_scheme \<Rightarrow> jsnum" where
  "recencyScore now t =
     js_max (Num 0) (js_sub (Num 1) (js_div (daysSincePublished now t) (Num 30)))"

definition raw_score :: "real \<Rightarrow> 'a trend_scheme \<Rightarrow> jsnum" where
  "raw_score now t =
     js_mul (js_add (js_add (js_mul (viewScore t) (Num (3 / 10)))
                            (js_mul (engagementScore t) (Num (4 / 10))))
                    (js_mul (recencyScore now t) (Num (3 / 10))))
            (Num 100)"

definition calculateTrendScore :: "real \<Rightarrow> 'a trend_scheme \<Rightarrow> jsnum" where
  "calculateTrendScore now t = toFixed2 (raw_score now t)"

text \<open>The callback of \<open>trends.map\<close> in \<open>analyzeTrends\<close>.\<close>

definition analyze :: "real \<Rightarrow> trend \<Rightarrow> analyzed" where
  "analyze now t =
     (let engagementRate =
            toFixed2 (js_mul (js_div (js_add (likeCount t) (commentCount t)) (viewCount t))
                             (Num 100));
          score = calculateTrendScore now t
      in trend.extend t (analyzed.fields engagementRate score))"

text \<open>
  \<open>Array.prototype.sort\<close> with a comparator. The comparator's result \<open>v\<close> orders \<open>a\<close>
  after \<open>b\<close> when \<open>v > 0\<close>; a \<open>NaN\<close> result counts as \<open>+0\<close>. The language requires
  the sort to be stable, and to sort when the comparator is consistent; all conforming
  sorts then return the same array, which stable insertion sort computes. With an
  inconsistent comparator the order is left to the implementation, and the model is one
  such implementation.
\<close>

fun sort_insert :: "('a \<Rightarrow> 'a \<Rightarrow> jsnum) \<Rightarrow> 'a \<Rightarrow> 'a list \<Rightarrow> 'a list" where
  "sort_insert cmp x [] = [x]"
| "sort_insert cmp x (y # ys) =
     (if js_positive (cmp x y) then y # sort_insert cmp x ys else x # y # ys)"

fun js_sort :: "('a \<Rightarrow> 'a \<Rightarrow> jsnum) \<Rightarrow> 'a list \<Rightarrow> 'a list" where
  "js_sort cmp [] = []"
| "js_sort cmp (x # xs) = sort_insert cmp x (js_sort cmp xs)"

definition by_trendScore :: "analyzed \<Rightarrow> analyzed \<Rightarrow> jsnum" where
  "by_trendScore a b = js_sub (trendScore b) (trendScore a)"

definition analyzeTrends :: "real \<Rightarrow> trend list \<Rightarrow> analyzed list" where
  "analyzeTrends now trends = js_sort by_trendScore (map (analyze now) trends)"

text \<open>Non-increasing order of a list of scores, by \<open>>=\<close>.\<close>

definition non_increasing :: "jsnum list \<Rightarrow> bool" where
  "non_increasing xs = sorted_wrt js_ge xs"


subsection \<open>Trending topics of a niche\<close>

text \<open>
  \<open>niche.toLowerCase()\<close>, for the letters A to Z; other units are kept (none of the
  table's keys has a letter that another unit lowers to).
\<close>

definition toLowerCase :: "string \<Rightarrow> string" where
  "toLowerCase s =
     map (\<lambda>c. let n = (of_char c :: nat) in if 65 \<le> n \<and> n \<le> 90 then char_of (n + 32) else c) s"

text \<open>
  \<open>getNicheKeywords\<close>: the lookup in the object literal, then \<open>||\<close>. The literal
  inherits \<open>constructor\<close> and \<open>__proto__\<close> from \<open>Object.prototype\<close>; for these two
  names the lookup yields a truthy value that is not an array (\<open>None\<close> here).
\<close>

definition getNicheKeywords :: "string \<Rightarrow> string list option" where
  "getNicheKeywords niche =
     (let k = toLowerCase niche in
      if k = ''technology'' then Some [''tech'', ''AI'', ''software'', ''gadgets'', ''programming'']
      else if k = ''finance'' then Some [''money'', ''investing'', ''crypto'', ''stocks'', ''business'']
      else if k = ''health'' then Some [''fitness'', ''nutrition'', ''wellness'', ''workout'', ''health'']
      else if k = ''entertainment'' then Some [''movies'', ''music'', ''gaming'', ''streaming'', ''entertainment'']
      else if k = ''education'' then Some [''learning'', ''tutorial'', ''course'', ''education'', ''skills'']
      else if k = ''constructor'' \<or> k = ''__proto__'' then None
      else Some [''trending'', ''viral'', ''popular''])"

text \<open>
  The search API is an external collaborator: a function from the request to either the
  message of the error it raised or the videos read from its response.
\<close>

record search_params =
  sp_q :: string
  sp_maxResults :: nat
  sp_order :: string
  sp_publishedAfter :: "string option"

type_synonym search_api = "search_params \<Rightarrow> string + video list"

definition searchTrendingKeywords ::
  "search_api \<Rightarrow> string \<Rightarrow> nat \<Rightarrow> string \<Rightarrow> string + video list" where
  "searchTrendingKeywords api keywords maxResults order' =
     (case api \<lparr> sp_q = keywords, sp_maxResults = maxResults, sp_order = order',
                 sp_publishedAfter = None \<rparr> of
        Inl msg \<Rightarrow> Inl (''Keyword search failed: '' @ msg)
      | Inr videos \<Rightarrow> Inr videos)"

text \<open>The placeholder metrics that \<open>getTrendingTopicsForNiche\<close> gives each search result.\<close>

definition with_placeholders :: "video \<Rightarrow> trend" where
  "with_placeholders t = video.extend t (trend.fields (Num 100000) (Num 5000) (Num 500))"

definition getTrendingTopicsForNiche ::
  "search_api \<Rightarrow> real \<Rightarrow> string \<Rightarrow> string + analyzed list" where
  "getTrendingTopicsForNiche api now niche =
     (case getNicheKeywords niche of
        None \<Rightarrow> Inl ''keywords.join is not a function''
      | Some keywords \<Rightarrow>
          (case searchTrendingKeywords api (join '' '' keywords) 15 ''viewCount'' of
             Inl msg \<Rightarrow> Inl msg
           | Inr trends \<Rightarrow>
               Inr (slice0 10 (analyzeTrends now (map with_placeholders trends)))))"



section \<open>Publishing\<close>

text \<open>
  The platform APIs are external collaborators, reached through \<open>axios.post\<close>: a function
  from the URL, the body and the headers to either the message of the error raised, or
  the identifier read from the response (\<open>response.data.id\<close>; \<open>response.data.data.share_id\<close>
  for TikTok), which may be \<open>undefined\<close>. The error case covers a rejected call and a
  response from which the identifier cannot be read: both raise inside the same
  \<open>try\<close> block.
\<close>

datatype json =
    JUndefined | JNull | JBool bool | JNumber int | JString string
  | JObject "(string \<times> json) list" | JArray "json list"

type_synonym http_post = "string \<Rightarrow> json \<Rightarrow> (string \<times> string) list \<Rightarrow> string + string option"

record platform_config =
  instagram_accessToken :: "string option"
  instagram_businessAccountId :: "string option"
  tiktok_accessToken :: "string option"
  facebook_accessToken :: "string option"
  facebook_pageId :: "string option"
  linkedin_accessToken :: "string option"
  linkedin_personUrn :: "string option"

record world =
  config :: platform_config
  axios_post :: http_post

record post_options =
  o_mediaUrl :: "string option"
  o_videoUrl :: "string option"
  o_caption :: "string option"
  o_message :: "string option"
  o_text :: "string option"
  o_hashtags :: "string list option"

record post_result =
  r_platform :: string
  r_postId :: "string option"
  r_url :: "string option"
  r_success :: bool
  r_error :: "string option"

definition truthy :: "string option \<Rightarrow> bool" where
  "truthy v = (case v of None \<Rightarrow> False | Some s \<Rightarrow> s \<noteq> [])"

text \<open>A possibly undefined string inside a template literal, and as a JSON value.\<close>

definition tpl :: "string option \<Rightarrow> string" where
  "tpl v = (case v of None \<Rightarrow> ''undefined'' | Some s \<Rightarrow> s)"

definition json_of :: "string option \<Rightarrow> json" where
  "json_of v = (case v of None \<Rightarrow> JUndefined | Some s \<Rightarrow> JString s)"

text \<open>The record that each \<open>catch\<close> block of the posting functions returns.\<close>

definition failure :: "string \<Rightarrow> string \<Rightarrow> post_result" where
  "failure platform msg =
     \<lparr> r_platform = platform, r_postId = None, r_url = None, r_success = False,
       r_error = Some msg \<rparr>"

text \<open>The message of the \<open>TypeError\<close> that \<open>text.length\<close> raises on \<open>undefined\<close>.\<close>

definition length_of_undefined :: string where
  "length_of_undefined = ''Cannot read properties of undefined (reading length)''"

definition instagram_media_url :: "world \<Rightarrow> string" where
  "instagram_media_url w =
     ''https://graph.facebook.com/v18.0/'' @ tpl (instagram_businessAccountId (config w)) @ ''/media''"

definition instagram_publish_url :: "world \<Rightarrow> string" where
  "instagram_publish_url w =
     ''https://graph.facebook.com/v18.0/'' @ tpl (instagram_businessAccountId (config w))
       @ ''/media_publish''"

definition postToInstagram :: "world \<Rightarrow> content \<Rightarrow> post_options \<Rightarrow> post_result" where
  "postToInstagram w c opts =
     (let hashtags = or_arr (o_hashtags opts) [];
          token = instagram_accessToken (config w)
      in if \<not> truthy token then failure ''instagram'' ''Instagram access token not configured''
         else (case o_caption opts of
                 None \<Rightarrow> failure ''instagram'' length_of_undefined
               | Some caption \<Rightarrow>
                   (let fullCaption = caption @ [newline, newline] @ join '' '' hashtags
                    in case axios_post w (instagram_media_url w)
                              (JObject [(''image_url'', json_of (o_mediaUrl opts)),
                                        (''caption'', JString (truncateText fullCaption 2200)),
                                        (''access_token'', json_of token)]) [] of
                         Inl msg \<Rightarrow> failure ''instagram'' msg
                       | Inr creationId \<Rightarrow>
                           (case axios_post w (instagram_publish_url w)
                                   (JObject [(''creation_id'', json_of creationId),
                                             (''access_token'', json_of token)]) [] of
                              Inl msg \<Rightarrow> failure ''instagram'' msg
                            | Inr postId \<Rightarrow>
                                \<lparr> r_platform = ''instagram'', r_postId = postId,
                                  r_url = Some (''https://www.instagram.com/p/'' @ tpl postId @ ''/''),
                                  r_success = True, r_error = None \<rparr>))))"

definition tiktok_upload_url :: string where
  "tiktok_upload_url = ''https://open-api.tiktok.com/share/video/upload/''"

definition postToTikTok :: "world \<Rightarrow> content \<Rightarrow> post_options \<Rightarrow> post_result" where
  "postToTikTok w c opts =
     (let hashtags = or_arr (o_hashtags opts) [];
          token = tiktok_accessToken (config w)
      in if \<not> truthy token then failure ''tiktok'' ''TikTok access token not configured''
         else (case o_caption opts of
                 None \<Rightarrow> failure ''tiktok'' length_of_undefined
               | Some caption \<Rightarrow>
                   (let fullCaption = caption @ '' '' @ join '' '' hashtags
                    in case axios_post w tiktok_upload_url
                              (JObject [(''video'', JObject [(''url'', json_of (o_videoUrl opts))]),
                                        (''post_info'', JObject
                                           [(''title'', JString (truncateText fullCaption 150)),
                                            (''privacy_level'', JString ''PUBLIC_TO_EVERYONE''),
                                            (''disable_duet'', JBool False),
                                            (''disable_comment'', JBool False),
                                            (''disable_stitch'', JBool False),
                                            (''video_cover_timestamp_ms'', JNumber 1000)])])
                              [(''Authorization'', ''Bearer '' @ tpl token),
                               (''Content-Type'', ''application/json'')] of
                         Inl msg \<Rightarrow> failure ''tiktok'' msg
                       | Inr shareId \<Rightarrow>
                           \<lparr> r_platform = ''tiktok'', r_postId = shareId, r_url = None,
                             r_success = True, r_error = None \<rparr>)))"

definition facebook_feed_url :: "world \<Rightarrow> string" where
  "facebook_feed_url w =
     ''https://graph.facebook.com/v18.0/'' @ tpl (facebook_pageId (config w)) @ ''/feed''"

definition facebook_photos_url :: "world \<Rightarrow> string" where
  "facebook_photos_url w =
     ''https://graph.facebook.com/v18.0/'' @ tpl (facebook_pageId (config w)) @ ''/photos''"

definition postToFacebook :: "world \<Rightarrow> content \<Rightarrow> post_options \<Rightarrow> post_result" where
  "postToFacebook w c opts =
     (let hashtags = or_arr (o_hashtags opts) [];
          token = facebook_accessToken (config w)
      in if \<not> truthy token then failure ''facebook'' ''Facebook access token not configured''
         else (case o_message opts of
                 None \<Rightarrow> failure ''facebook'' length_of_undefined
               | Some message \<Rightarrow>
                   (let fullMessage = message @ [newline, newline] @ join '' '' hashtags;
                        endpoint = (if truthy (o_mediaUrl opts) then facebook_photos_url w
                                    else facebook_feed_url w);
                        postData = [(''message'', JString fullMessage),
                                    (''access_token'', json_of token)]
                                   @ (if truthy (o_mediaUrl opts)
                                      then [(''url'', json_of (o_mediaUrl opts)),
                                            (''caption'', JString fullMessage)]
                                      else [])
                    in case axios_post w endpoint (JObject postData) [] of
                         Inl msg \<Rightarrow> failure ''facebook'' msg
                       | Inr postId \<Rightarrow>
                           \<lparr> r_platform = ''facebook'', r_postId = postId,
                             r_url = Some (''https://www.facebook.com/'' @ tpl postId),
                             r_success = True, r_error = None \<rparr>)))"

definition linkedin_posts_url :: string where
  "linkedin_posts_url = ''https://api.linkedin.com/v2/ugcPosts''"

text \<open>The \<open>postData\<close> object of \<open>postToLinkedIn\<close>, with the media entry it may get.\<close>

definition linkedin_postData :: "world \<Rightarrow> string option \<Rightarrow> string \<Rightarrow> json" where
  "linkedin_postData w mediaUrl fullText =
     (let share = [(''shareCommentary'',
                      JObject [(''text'', JString (truncateText fullText 3000))]),
                   (''shareMediaCategory'',
                      JString (if truthy mediaUrl then ''IMAGE'' else ''NONE''))]
                  @ (if truthy mediaUrl
                     then [(''media'', JArray [JObject
                              [(''status'', JString ''READY''),
                               (''originalUrl'', json_of mediaUrl)]])]
                     else [])
      in JObject
           [(''author'', json_of (linkedin_personUrn (config w))),
            (''lifecycleState'', JString ''PUBLISHED''),
            (''specificContent'',
               JObject [(''com.linkedin.ugc.ShareContent'', JObject share)]),
            (''visibility'',
               JObject [(''com.linkedin.ugc.MemberNetworkVisibility'', JString ''PUBLIC'')])])"

definition linkedin_headers :: "string option \<Rightarrow> (string \<times> string) list" where
  "linkedin_headers token =
     [(''Authorization'', ''Bearer '' @ tpl token),
      (''Content-Type'', ''application/json''),
      (''X-Restli-Protocol-Version'', ''2.0.0'')]"

definition postToLinkedIn :: "world \<Rightarrow> content \<Rightarrow> post_options \<Rightarrow> post_result" where
  "postToLinkedIn w c opts =
     (let hashtags = or_arr (o_hashtags opts) [];
          token = linkedin_accessToken (config w)
      in if \<not> truthy token then failure ''linkedin'' ''LinkedIn access token not configured''
         else (case o_text opts of
                 None \<Rightarrow> failure ''linkedin'' length_of_undefined
               | Some txt \<Rightarrow>
                   (let fullText = txt @ [newline, newline] @ join '' '' hashtags;
                        postData = linkedin_postData w (o_mediaUrl opts) fullText
                    in case axios_post w linkedin_posts_url postData (linkedin_headers token) of
                         Inl msg \<Rightarrow> failure ''linkedin'' msg
                       | Inr postId \<Rightarrow>
                           \<lparr> r_platform = ''linkedin'', r_postId = postId, r_url = None,
                             r_success = True, r_error = None \<rparr>)))"


text \<open>
  \<open>publishContent\<close>. The \<open>switch\<close> of the loop body yields the posting function's
  record, or nothing for a name without a \<open>case\<close>. (A name that the result object only
  inherits, such as \<open>constructor\<close>, passes the \<open>continue\<close> test and then meets no
  \<open>case\<close>; it is skipped like a name with no entry.)
\<close>

definition publish_switch :: "world \<Rightarrow> content \<Rightarrow> string \<Rightarrow> payload \<Rightarrow> post_result option" where
  "publish_switch w c platform platformContent =
     (let none = \<lparr> o_mediaUrl = None, o_videoUrl = None, o_caption = None, o_message = None,
                   o_text = None, o_hashtags = Some (p_hashtags platformContent) \<rparr>
      in if platform = ''instagram''
           then Some (postToInstagram w c (none\<lparr> o_caption := p_caption platformContent \<rparr>))
         else if platform = ''tiktok''
           then Some (postToTikTok w c (none\<lparr> o_caption := p_caption platformContent \<rparr>))
         else if platform = ''facebook''
           then Some (postToFacebook w c (none\<lparr> o_message := p_message platformContent \<rparr>))
         else if platform = ''linkedin''
           then Some (postToLinkedIn w c (none\<lparr> o_text := p_text platformContent \<rparr>))
         else None)"

fun publish_loop ::
  "world \<Rightarrow> content \<Rightarrow> (string \<rightharpoonup> payload) \<Rightarrow> post_result list \<Rightarrow> string list
     \<Rightarrow> post_result list" where
  "publish_loop w c repurposed results [] = results"
| "publish_loop w c repurposed results (platform # rest) =
     (case repurposed platform of
        None \<Rightarrow> publish_loop w c repurposed results rest
      | Some platformContent \<Rightarrow>
          (case publish_switch w c platform platformContent of
             None \<Rightarrow> publish_loop w c repurposed results rest
           | Some result \<Rightarrow> publish_loop w c repurposed (results @ [result]) rest))"

text \<open>
  The body of \<open>publishContent\<close> over the repurposing step it calls: an error that the
  step raises is logged and raised again, nothing else in the body raises.
\<close>

definition publishContent_with ::
  "(content \<Rightarrow> string list \<Rightarrow> string + (string \<rightharpoonup> payload)) \<Rightarrow> world \<Rightarrow> content \<Rightarrow> string list
     \<Rightarrow> string + post_result list" where
  "publishContent_with repurpose w c platforms =
     (case repurpose c platforms of
        Inl msg \<Rightarrow> Inl msg
      | Inr repurposed \<Rightarrow> Inr (publish_loop w c repurposed [] platforms))"

definition publishContent :: "world \<Rightarrow> content \<Rightarrow> string list \<Rightarrow> string + post_result list" where
  "publishContent w c platforms =
     publishContent_with (\<lambda>c ps. Inr (repurposeContent c ps)) w c platforms"

text \<open>
  The URLs a platform's posting function calls when \<open>publishContent\<close> invokes it (no
  media URL is passed, so Facebook posts to the feed).
\<close>

definition endpoints :: "world \<Rightarrow> string \<Rightarrow> string list" where
  "endpoints w platform =
     (if platform = ''instagram'' then [instagram_media_url w, instagram_publish_url w]
      else if platform = ''tiktok'' then [tiktok_upload_url]
      else if platform = ''facebook'' then [facebook_feed_url w]
      else if platform = ''linkedin'' then [linkedin_posts_url]
      else [])"

definition accessToken :: "world \<Rightarrow> string \<Rightarrow> string option" where
  "accessToken w platform =
     (if platform = ''instagram'' then instagram_accessToken (config w)
      else if platform = ''tiktok'' then tiktok_accessToken (config w)
      else if platform = ''facebook'' then facebook_accessToken (config w)
      else if platform = ''linkedin'' then linkedin_accessToken (config w)
      else None)"


text \<open>
  What it means for a platform's upstream calls to succeed or to fail, whatever is sent:
  they succeed when the access token is configured and none of the platform's endpoints
  raises; they fail when one of the endpoints raises on every request.
\<close>

definition upstream_succeeds :: "world \<Rightarrow> string \<Rightarrow> bool" where
  "upstream_succeeds w platform =
     (truthy (accessToken w platform) \<and>
      (\<forall>url \<in> set (endpoints w platform). \<forall>body headers. \<not> isl (axios_post w url body headers)))"

definition upstream_fails :: "world \<Rightarrow> string \<Rightarrow> bool" where
  "upstream_fails w platform =
     (\<exists>url \<in> set (endpoints w platform). \<forall>body headers. isl (axios_post w url body headers))"


section \<open>The generation pipeline\<close>

record script =
  hook :: string
  mainContent :: "string list"
  callToAction :: string
  fullScript :: string

text \<open>
  The generation steps are external collaborators: each is a function from its arguments
  to the message of the error it raised or to its output.
\<close>

record providers =
  search :: search_api
  generateVideoScript :: "string \<Rightarrow> nat \<Rightarrow> string \<Rightarrow> string \<Rightarrow> string + script"
  generateVoiceoverText :: "string \<Rightarrow> string + string"
  generateVoiceover :: "string \<Rightarrow> string \<Rightarrow> string + string"
  generateVisualPrompts :: "string \<Rightarrow> nat \<Rightarrow> string \<Rightarrow> string + string"
  generateThumbnailPrompts :: "string \<Rightarrow> nat \<Rightarrow> string + string"
  generateSEOMetadata :: "string \<Rightarrow> string \<Rightarrow> string + seo_metadata"
  generateBRollSuggestions :: "string \<Rightarrow> string + string"
  webhook :: "content \<Rightarrow> string + unit"

record environment =
  contentNiche :: string
  targetAudience :: string
  n8n_enabled :: bool
  n8n_webhookUrl :: "string option"
  clock :: real
  generatedId :: string

record options =
  opt_topic :: "string option"
  opt_niche :: "string option"
  opt_duration :: "nat option"
  opt_autoDiscoverTrend :: "bool option"
  opt_platforms :: "string list option"

datatype step =
    TrendDiscovery | ScriptGeneration | VoiceoverText | Voiceover | VisualPrompts
  | ThumbnailConcepts | SEOMetadata | BRollSuggestions | Notification

text \<open>
  \<open>MissingTopic\<close> is the \<open>Error('No topic provided or discovered')\<close> that the pipeline
  raises itself; \<open>StepFailed\<close> is an error that a step raised, with its message.
\<close>

datatype pipeline_error = MissingTopic | StepFailed step string

text \<open>
  A run takes the list of the steps executed so far and returns it extended, with the
  error raised or the value computed.
\<close>

type_synonym 'a run = "step list \<Rightarrow> step list \<times> (pipeline_error + 'a)"

definition call :: "step \<Rightarrow> string + 'a \<Rightarrow> 'a run" where
  "call s r = (\<lambda>trace. (trace @ [s],
                         case r of Inl msg \<Rightarrow> Inl (StepFailed s msg) | Inr v \<Rightarrow> Inr v))"

definition throw :: "pipeline_error \<Rightarrow> 'a run" where
  "throw e = (\<lambda>trace. (trace, Inl e))"

definition return :: "'a \<Rightarrow> 'a run" where
  "return v = (\<lambda>trace. (trace, Inr v))"

definition and_then :: "'a run \<Rightarrow> ('a \<Rightarrow> 'b run) \<Rightarrow> 'b run" where
  "and_then m f = (\<lambda>trace. case m trace of
                              (trace', Inl e) \<Rightarrow> (trace', Inl e)
                            | (trace', Inr v) \<Rightarrow> f v trace')"

text \<open>Step 1: the topic given, or the one discovered.\<close>

definition discover_topic :: "providers \<Rightarrow> environment \<Rightarrow> string option \<Rightarrow> string \<Rightarrow> bool
     \<Rightarrow> string option run" where
  "discover_topic p env topic niche autoDiscoverTrend =
     (if autoDiscoverTrend \<and> \<not> truthy topic
      then and_then (call TrendDiscovery (getTrendingTopicsForNiche (search p) (clock env) niche))
             (\<lambda>trends. return (Some (or_str (case trends of [] \<Rightarrow> None | t # _ \<Rightarrow> Some (title t))
                                            (''Trending '' @ niche @ '' topic''))))
      else return topic)"

text \<open>
  \<open>notifyN8N\<close> catches and logs the error of its own request: the run goes on either way.
\<close>

definition notify :: "providers \<Rightarrow> content \<Rightarrow> unit run" where
  "notify p content =
     (\<lambda>trace. (trace @ [Notification],
                Inr (case webhook p content of Inl msg \<Rightarrow> () | Inr _ \<Rightarrow> ())))"

text \<open>Steps 2 to 7 and the assembly of the artifact, for the final topic.\<close>

definition generate_steps :: "providers \<Rightarrow> environment \<Rightarrow> string \<Rightarrow> string \<Rightarrow> nat \<Rightarrow> string list
     \<Rightarrow> content run" where
  "generate_steps p env finalTopic niche duration platforms =
     and_then (call ScriptGeneration
                 (generateVideoScript p finalTopic duration ''engaging'' (targetAudience env)))
     (\<lambda>script.
     and_then (call VoiceoverText (generateVoiceoverText p (fullScript script)))
     (\<lambda>voiceoverText.
     and_then (call Voiceover
                 (generateVoiceover p voiceoverText (generatedId env @ ''_voiceover.mp3'')))
     (\<lambda>voiceover.
     and_then (call VisualPrompts (generateVisualPrompts p (fullScript script) 5 ''modern''))
     (\<lambda>visuals.
     and_then (call ThumbnailConcepts (generateThumbnailPrompts p finalTopic 3))
     (\<lambda>thumbnails.
     and_then (call SEOMetadata (generateSEOMetadata p (fullScript script) niche))
     (\<lambda>seoMetadata.
     and_then (call BRollSuggestions (generateBRollSuggestions p (fullScript script)))
     (\<lambda>brollSuggestions.
       (let content = \<lparr> c_id = generatedId env, c_topic = Some finalTopic, c_niche = niche,
                         c_script = fullScript script, c_voiceover = voiceover,
                         c_visuals = visuals, c_thumbnails = thumbnails,
                         c_seoMetadata = Some seoMetadata,
                         c_brollSuggestions = brollSuggestions, c_duration = duration,
                         c_platforms = platforms, c_status = ''generated'' \<rparr>
        in if n8n_enabled env \<and> truthy (n8n_webhookUrl env)
           then and_then (notify p content) (\<lambda>_. return content)
           else return content))))))))"

definition generateCompleteContent :: "providers \<Rightarrow> environment \<Rightarrow> options
     \<Rightarrow> step list \<times> (pipeline_error + content)" where
  "generateCompleteContent p env opts =
     (let topic = opt_topic opts;
          niche = (case opt_niche opts of None \<Rightarrow> contentNiche env | Some n \<Rightarrow> n);
          duration = (case opt_duration opts of None \<Rightarrow> 120 | Some d \<Rightarrow> d);
          autoDiscoverTrend = (case opt_autoDiscoverTrend opts of None \<Rightarrow> True | Some b \<Rightarrow> b);
          platforms = (case opt_platforms opts of None \<Rightarrow> [''youtube''] | Some ps \<Rightarrow> ps)
      in and_then (discover_topic p env topic niche autoDiscoverTrend)
           (\<lambda>finalTopic.
              case finalTopic of
                None \<Rightarrow> throw MissingTopic
              | Some t \<Rightarrow> if t = [] then throw MissingTopic
                          else generate_steps p env t niche duration platforms) [])"

text \<open>The steps that generate content: every step but trend discovery and the notification.\<close>

definition generation_steps :: "step set" where
  "generation_steps = {ScriptGeneration, VoiceoverText, Voiceover, VisualPrompts,
                       ThumbnailConcepts, SEOMetadata, BRollSuggestions}"


section \<open>Example inputs\<close>

text \<open>An artifact with no topic and no SEO metadata, and one whose SEO fields are long.\<close>

definition blank_content :: content where
  "blank_content = \<lparr> c_id = ''c1'', c_topic = None, c_niche = [], c_script = [],
     c_voiceover = [], c_visuals = [], c_thumbnails = [], c_seoMetadata = None,
     c_brollSuggestions = [], c_duration = 0, c_platforms = [], c_status = [] \<rparr>"

definition long_content :: content where
  "long_content = blank_content \<lparr> c_topic := Some ''topic'',
     c_seoMetadata := Some \<lparr> seo_title = Some (replicate 4000 (CHR ''t'')),
                             seo_description = Some (replicate 6000 (CHR ''d'')),
                             seo_hashtags = Some (replicate 40 ''#tag'') \<rparr> \<rparr>"

definition all_platforms :: "string list" where
  "all_platforms = [''instagram'', ''tiktok'', ''facebook'', ''linkedin'']"


text \<open>
  Trend records: one with the metrics of the specification's example, published at the
  time of the analysis; one with no views; one whose view count is not a number; two
  small ones with equal scores.
\<close>

definition example_now :: real where
  "example_now = 1700000000000"

definition popular :: trend where
  "popular = \<lparr> videoId = ''v1'', title = ''popular'', description = [], channelTitle = [],
               publishedAt = Num example_now, viewCount = Num 1000000, likeCount = Num 50000,
               commentCount = Num 5000 \<rparr>"

definition zero_views :: trend where
  "zero_views = \<lparr> videoId = ''v2'', title = ''unseen'', description = [], channelTitle = [],
                  publishedAt = Num example_now, viewCount = Num 0, likeCount = Num 5,
                  commentCount = Num 1 \<rparr>"


definition small_first :: trend where
  "small_first = \<lparr> videoId = ''v3'', title = ''first'', description = [], channelTitle = [],
                   publishedAt = Num example_now, viewCount = Num 100, likeCount = Num 10,
                   commentCount = Num 0 \<rparr>"

definition small_second :: trend where
  "small_second = \<lparr> videoId = ''v4'', title = ''second'', description = [], channelTitle = [],
                    publishedAt = Num example_now, viewCount = Num 100, likeCount = Num 4,
                    commentCount = Num 6 \<rparr>"


text \<open>
  A search API that answers every request with two videos, the first published fifteen
  days before the analysis and the second at its time.
\<close>

definition old_video :: video where
  "old_video = \<lparr> videoId = ''s1'', title = ''older'', description = [], channelTitle = [],
                 publishedAt = Num (example_now - 15 * (1000 * 60 * 60 * 24)) \<rparr>"

definition new_video :: video where
  "new_video = \<lparr> videoId = ''s2'', title = ''newer'', description = [], channelTitle = [],
                 publishedAt = Num example_now \<rparr>"

definition example_search :: search_api where
  "example_search = (\<lambda>params. Inr [old_video, new_video])"


text \<open>Providers that all succeed, an environment, and two option records without a topic.\<close>

definition example_providers :: providers where
  "example_providers =
     \<lparr> search = example_search,
       generateVideoScript = (\<lambda>topic duration tone audience.
          Inr \<lparr> hook = ''hook'', mainContent = [''body''], callToAction = ''subscribe'',
                fullScript = ''script about '' @ topic \<rparr>),
       generateVoiceoverText = (\<lambda>s. Inr s),
       generateVoiceover = (\<lambda>txt filename. Inr filename),
       generateVisualPrompts = (\<lambda>s sceneCount style. Inr ''scenes''),
       generateThumbnailPrompts = (\<lambda>topic n. Inr ''thumbnails''),
       generateSEOMetadata = (\<lambda>s niche.
          Inr \<lparr> seo_title = Some ''title'', seo_description = Some ''description'',
                seo_hashtags = Some [''#a''] \<rparr>),
       generateBRollSuggestions = (\<lambda>s. Inr ''broll''),
       webhook = (\<lambda>c. Inl ''unreachable'') \<rparr>"

definition example_environment :: environment where
  "example_environment =
     \<lparr> contentNiche = ''Technology'', targetAudience = ''general'', n8n_enabled = True,
       n8n_webhookUrl = Some ''https://hooks.example/content-ready'', clock = example_now,
       generatedId = ''id1'' \<rparr>"


definition no_topic_default :: options where
  "no_topic_default =
     \<lparr> opt_topic = None, opt_niche = None, opt_duration = None,
       opt_autoDiscoverTrend = None, opt_platforms = None \<rparr>"

text \<open>
  A world in which every token is configured and every request succeeds but those to the
  Facebook feed.
\<close>

definition example_world :: world where
  "example_world =
     \<lparr> config = \<lparr> instagram_accessToken = Some ''ig-token'',
                   instagram_businessAccountId = Some ''ig1'',
                   tiktok_accessToken = Some ''tt-token'',
                   facebook_accessToken = Some ''fb-token'',
                   facebook_pageId = Some ''page1'',
                   linkedin_accessToken = Some ''li-token'',
                   linkedin_personUrn = Some ''urn:li:person:1'' \<rparr>,
       axios_post = (\<lambda>url body headers.
          if url = ''https://graph.facebook.com/v18.0/page1/feed''
          then Inl ''Request failed with status code 500''
          else Inr (Some ''post1'')) \<rparr>"


section \<open>Verified properties\<close>

subsection \<open>Repurposing\<close>

lemma repurpose_loop_lookup:
  "repurpose_loop c m ps k =
     (if k \<in> set ps \<and> k = ''instagram'' then Some (repurposeForInstagram c)
      else if k \<in> set ps \<and> k = ''tiktok'' then Some (repurposeForTikTok c)
      else if k \<in> set ps \<and> k = ''facebook'' then Some (repurposeForFacebook c)
      else if k \<in> set ps \<and> k = ''linkedin'' then Some (repurposeForLinkedIn c)
      else m k)"
proof (induction ps arbitrary: m)
  case Nil
  show ?case by simp
next
  case (Cons p ps)
  show ?case
    unfolding repurpose_loop.simps Cons.IH
    by (auto simp: repurpose_step_def)
qed

lemma repurposeContent_lookup:
  "repurposeContent c ps k =
     (if k \<in> set ps \<and> k = ''instagram'' then Some (repurposeForInstagram c)
      else if k \<in> set ps \<and> k = ''tiktok'' then Some (repurposeForTikTok c)
      else if k \<in> set ps \<and> k = ''facebook'' then Some (repurposeForFacebook c)
      else if k \<in> set ps \<and> k = ''linkedin'' then Some (repurposeForLinkedIn c)
      else None)"
  unfolding repurposeContent_def repurpose_loop_lookup by simp

lemma instagram_caps:
  "\<exists>cap. p_caption (repurposeForInstagram c) = Some cap \<and> length cap \<le> 2200"
  "length (p_hashtags (repurposeForInstagram c)) \<le> 30"
  by (simp_all add: repurposeForInstagram_def Let_def substring0_def slice0_def)

lemma tiktok_caps:
  "\<exists>cap. p_caption (repurposeForTikTok c) = Some cap \<and> length cap \<le> 150"
  "length (p_hashtags (repurposeForTikTok c)) \<le> 10"
  by (simp_all add: repurposeForTikTok_def Let_def substring0_def slice0_def)

lemma facebook_caps:
  "\<exists>msg. p_message (repurposeForFacebook c) = Some msg \<and> length msg \<le> 5000"
  "length (p_hashtags (repurposeForFacebook c)) \<le> 15"
  by (simp_all add: repurposeForFacebook_def Let_def substring0_def slice0_def)

lemma linkedin_caps:
  "\<exists>txt. p_text (repurposeForLinkedIn c) = Some txt \<and> length txt \<le> 3000"
  "length (p_hashtags (repurposeForLinkedIn c)) \<le> 5"
  by (simp_all add: repurposeForLinkedIn_def Let_def substring0_def slice0_def)

text \<open>
  C1. Whatever the artifact and the requested platforms, every payload that
  \<open>repurposeContent\<close> returns keeps its platform's caps: the Instagram caption has at
  most 2200 units and at most 30 hashtags, the TikTok caption at most 150 units and 10
  hashtags, the Facebook message at most 5000 units and 15 hashtags, the LinkedIn text at
  most 3000 units and 5 hashtags.
\<close>

theorem repurposeContent_caps:
  "(\<forall>p. repurposeContent c ps ''instagram'' = Some p \<longrightarrow>
        (\<exists>cap. p_caption p = Some cap \<and> length cap \<le> 2200) \<and> length (p_hashtags p) \<le> 30) \<and>
   (\<forall>p. repurposeContent c ps ''tiktok'' = Some p \<longrightarrow>
        (\<exists>cap. p_caption p = Some cap \<and> length cap \<le> 150) \<and> length (p_hashtags p) \<le> 10) \<and>
   (\<forall>p. repurposeContent c ps ''facebook'' = Some p \<longrightarrow>
        (\<exists>msg. p_message p = Some msg \<and> length msg \<le> 5000) \<and> length (p_hashtags p) \<le> 15) \<and>
   (\<forall>p. repurposeContent c ps ''linkedin'' = Some p \<longrightarrow>
        (\<exists>txt. p_text p = Some txt \<and> length txt \<le> 3000) \<and> length (p_hashtags p) \<le> 5)"
proof (intro conjI allI impI)
  fix p assume "repurposeContent c ps ''instagram'' = Some p"
  then have p: "p = repurposeForInstagram c"
    by (simp add: repurposeContent_lookup split: if_splits)
  show "\<exists>cap. p_caption p = Some cap \<and> length cap \<le> 2200" unfolding p by (rule instagram_caps)
  show "length (p_hashtags p) \<le> 30" unfolding p by (rule instagram_caps)
next
  fix p assume "repurposeContent c ps ''tiktok'' = Some p"
  then have p: "p = repurposeForTikTok c"
    by (simp add: repurposeContent_lookup split: if_splits)
  show "\<exists>cap. p_caption p = Some cap \<and> length cap \<le> 150" unfolding p by (rule tiktok_caps)
  show "length (p_hashtags p) \<le> 10" unfolding p by (rule tiktok_caps)
next
  fix p assume "repurposeContent c ps ''facebook'' = Some p"
  then have p: "p = repurposeForFacebook c"
    by (simp add: repurposeContent_lookup split: if_splits)
  show "\<exists>msg. p_message p = Some msg \<and> length msg \<le> 5000" unfolding p by (rule facebook_caps)
  show "length (p_hashtags p) \<le> 15" unfolding p by (rule facebook_caps)
next
  fix p assume "repurposeContent c ps ''linkedin'' = Some p"
  then have p: "p = repurposeForLinkedIn c"
    by (simp add: repurposeContent_lookup split: if_splits)
  show "\<exists>txt. p_text p = Some txt \<and> length txt \<le> 3000" unfolding p by (rule linkedin_caps)
  show "length (p_hashtags p) \<le> 5" unfolding p by (rule linkedin_caps)
qed

theorem repurposeContent_caps_witness:
  "repurposeContent long_content all_platforms ''instagram'' = Some (repurposeForInstagram long_content) \<and>
   repurposeContent long_content all_platforms ''tiktok'' = Some (repurposeForTikTok long_content) \<and>
   repurposeContent long_content all_platforms ''facebook'' = Some (repurposeForFacebook long_content) \<and>
   repurposeContent long_content all_platforms ''linkedin'' = Some (repurposeForLinkedIn long_content) \<and>
   (\<exists>cap. p_caption (repurposeForInstagram long_content) = Some cap \<and> length cap \<le> 2200) \<and>
   length (p_hashtags (repurposeForInstagram long_content)) \<le> 30 \<and>
   (\<exists>cap. p_caption (repurposeForTikTok long_content) = Some cap \<and> length cap \<le> 150) \<and>
   length (p_hashtags (repurposeForTikTok long_content)) \<le> 10 \<and>
   (\<exists>msg. p_message (repurposeForFacebook long_content) = Some msg \<and> length msg \<le> 5000) \<and>
   length (p_hashtags (repurposeForFacebook long_content)) \<le> 15 \<and>
   (\<exists>txt. p_text (repurposeForLinkedIn long_content) = Some txt \<and> length txt \<le> 3000) \<and>
   length (p_hashtags (repurposeForLinkedIn long_content)) \<le> 5"
proof -
  have h:
    "repurposeContent long_content all_platforms ''instagram'' = Some (repurposeForInstagram long_content)"
    "repurposeContent long_content all_platforms ''tiktok'' = Some (repurposeForTikTok long_content)"
    "repurposeContent long_content all_platforms ''facebook'' = Some (repurposeForFacebook long_content)"
    "repurposeContent long_content all_platforms ''linkedin'' = Some (repurposeForLinkedIn long_content)"
    by (simp_all add: repurposeContent_lookup all_platforms_def)
  from repurposeContent_caps [of long_content all_platforms] h show ?thesis
    by blast
qed

text \<open>
  C8. The keys of the map that \<open>repurposeContent\<close> returns are exactly the requested names
  that are among the four known platforms. The function is total: a name outside the four
  adds no entry and raises nothing.
\<close>

theorem repurposeContent_keys:
  "dom (repurposeContent c ps) = set ps \<inter> known_platforms"
  by (auto simp: dom_def repurposeContent_lookup known_platforms_def split: if_splits)



lemma split_no_sep: "sep \<notin> set s \<Longrightarrow> split sep s = [s]"
  by (induction s) auto

lemma long_sources:
  "instagram_caption long_content =
     replicate 6000 (CHR ''d'') @ [newline, newline] @ join '' '' (replicate 10 ''#tag'')"
  "tiktok_caption long_content = replicate 4000 (CHR ''t'')"
  "facebook_description long_content = replicate 6000 (CHR ''d'')"
  "linkedin_professionalTone long_content =
     replicate 4000 (CHR ''t'') @ [newline, newline] @ replicate 6000 (CHR ''d'')"
  by (simp_all add: instagram_caption_def tiktok_caption_def facebook_description_def
        linkedin_professionalTone_def long_content_def blank_content_def seo_field_def
        or_str_def or_str_opt_def or_arr_def split_no_sep newline_def first_or_undefined_def
        slice0_def)

lemma blank_sources:
  "instagram_caption blank_content = [newline, newline]"
  "tiktok_caption blank_content = ''Video''"
  "facebook_description blank_content = []"
  "linkedin_professionalTone blank_content = ''Professional Content'' @ [newline, newline]"
  by (simp_all add: instagram_caption_def tiktok_caption_def facebook_description_def
        linkedin_professionalTone_def blank_content_def seo_field_def
        or_str_def or_str_opt_def or_arr_def first_or_undefined_def slice0_def)

text \<open>
  The helper \<open>truncateText\<close>, which the posting functions apply to the caption with its
  hashtags, is the one place where a marker is appended.
\<close>

lemma truncateText_marker:
  "length txt \<le> n \<Longrightarrow> truncateText txt n = txt"
  "n < length txt \<Longrightarrow> 3 \<le> n \<Longrightarrow>
     suffix ''...'' (truncateText txt n) \<and> length (truncateText txt n) = n"
  by (auto simp: truncateText_def substring0_def suffix_def)

text \<open>
  C4, as stated, fails: the transforms cut with \<open>substring(0, max)\<close> and append nothing.
  A TikTok title of 4000 units \<open>t\<close> gives the caption of 150 units \<open>t\<close>, which does not
  end with the marker.
\<close>

theorem truncation_marker_counterexample:
  "150 < length (tiktok_caption long_content) \<and>
   p_caption (repurposeForTikTok long_content) = Some (replicate 150 (CHR ''t'')) \<and>
   \<not> suffix ''...'' (replicate 150 (CHR ''t''))"
proof -
  have "suffix ''...'' (replicate 150 (CHR ''t'')) \<Longrightarrow> False"
  proof -
    assume "suffix ''...'' (replicate 150 (CHR ''t''))"
    then have "set ''...'' \<subseteq> set (replicate 150 (CHR ''t''))"
      by (rule set_mono_suffix)
    then show False by simp
  qed
  then show ?thesis
    by (auto simp: long_sources repurposeForTikTok_def substring0_def)
qed

text \<open>
  C4, amended. For each of the four transforms, a source longer than the platform's
  maximum is cut to exactly its first \<open>max\<close> units, with no marker appended; a source at
  or under the maximum is returned unchanged.
\<close>

theorem repurpose_hard_cut:
  "(2200 < length (instagram_caption c) \<longrightarrow>
      p_caption (repurposeForInstagram c) = Some (take 2200 (instagram_caption c))) \<and>
   (length (instagram_caption c) \<le> 2200 \<longrightarrow>
      p_caption (repurposeForInstagram c) = Some (instagram_caption c)) \<and>
   (150 < length (tiktok_caption c) \<longrightarrow>
      p_caption (repurposeForTikTok c) = Some (take 150 (tiktok_caption c))) \<and>
   (length (tiktok_caption c) \<le> 150 \<longrightarrow>
      p_caption (repurposeForTikTok c) = Some (tiktok_caption c)) \<and>
   (5000 < length (facebook_description c) \<longrightarrow>
      p_message (repurposeForFacebook c) = Some (take 5000 (facebook_description c))) \<and>
   (length (facebook_description c) \<le> 5000 \<longrightarrow>
      p_message (repurposeForFacebook c) = Some (facebook_description c)) \<and>
   (3000 < length (linkedin_professionalTone c) \<longrightarrow>
      p_text (repurposeForLinkedIn c) = Some (take 3000 (linkedin_professionalTone c))) \<and>
   (length (linkedin_professionalTone c) \<le> 3000 \<longrightarrow>
      p_text (repurposeForLinkedIn c) = Some (linkedin_professionalTone c))"
  by (simp add: repurposeForInstagram_def repurposeForTikTok_def repurposeForFacebook_def
        repurposeForLinkedIn_def substring0_def Let_def)

theorem repurpose_hard_cut_witness:
  "2200 < length (instagram_caption long_content) \<and>
   150 < length (tiktok_caption long_content) \<and>
   5000 < length (facebook_description long_content) \<and>
   3000 < length (linkedin_professionalTone long_content) \<and>
   p_caption (repurposeForInstagram long_content) = Some (replicate 2200 (CHR ''d'')) \<and>
   p_caption (repurposeForTikTok long_content) = Some (replicate 150 (CHR ''t'')) \<and>
   p_message (repurposeForFacebook long_content) = Some (replicate 5000 (CHR ''d'')) \<and>
   p_text (repurposeForLinkedIn long_content) = Some (replicate 3000 (CHR ''t'')) \<and>
   length (instagram_caption blank_content) \<le> 2200 \<and>
   length (tiktok_caption blank_content) \<le> 150 \<and>
   length (facebook_description blank_content) \<le> 5000 \<and>
   length (linkedin_professionalTone blank_content) \<le> 3000 \<and>
   p_caption (repurposeForInstagram blank_content) = Some [newline, newline] \<and>
   p_caption (repurposeForTikTok blank_content) = Some ''Video'' \<and>
   p_message (repurposeForFacebook blank_content) = Some [] \<and>
   p_text (repurposeForLinkedIn blank_content) = Some (''Professional Content'' @ [newline, newline])"
proof -
  have long: "2200 < length (instagram_caption long_content)"
    "150 < length (tiktok_caption long_content)"
    "5000 < length (facebook_description long_content)"
    "3000 < length (linkedin_professionalTone long_content)"
    by (simp_all add: long_sources)
  have short: "length (instagram_caption blank_content) \<le> 2200"
    "length (tiktok_caption blank_content) \<le> 150"
    "length (facebook_description blank_content) \<le> 5000"
    "length (linkedin_professionalTone blank_content) \<le> 3000"
    by (simp_all add: blank_sources)
  from repurpose_hard_cut [of long_content] repurpose_hard_cut [of blank_content] long short
  show ?thesis
    by (simp add: long_sources blank_sources)
qed

subsection \<open>Trend analysis\<close>

lemma mset_sort_insert: "mset (sort_insert cmp x ys) = add_mset x (mset ys)"
  by (induction ys) auto

lemma mset_js_sort: "mset (js_sort cmp xs) = mset xs"
  by (induction xs) (auto simp: mset_sort_insert)

lemma set_js_sort: "set (js_sort cmp xs) = set xs"
  by (metis mset_js_sort set_mset_mset)

lemma js_sub_self_not_positive: "\<not> js_positive (js_sub v v)"
  by (cases v) (auto simp: js_sub_def)

lemma positive_sub_iff:
  "a \<noteq> NaN \<Longrightarrow> b \<noteq> NaN \<Longrightarrow> js_positive (js_sub b a) \<longleftrightarrow> \<not> js_ge a b"
  by (cases a; cases b) (auto simp: js_sub_def)

lemma js_ge_total: "a \<noteq> NaN \<Longrightarrow> b \<noteq> NaN \<Longrightarrow> js_ge a b \<or> js_ge b a"
  by (cases a; cases b) auto

lemma js_ge_trans: "js_ge a b \<Longrightarrow> js_ge b c \<Longrightarrow> js_ge a c"
  by (cases a; cases b; cases c) auto

lemma filter_sort_insert:
  "filter (\<lambda>a. k a = s) (sort_insert (\<lambda>a b. js_sub (k b) (k a)) x ys) =
   filter (\<lambda>a. k a = s) (x # ys)"
proof (induction ys)
  case Nil
  show ?case by simp
next
  case (Cons y ys)
  show ?case
  proof (cases "js_positive (js_sub (k y) (k x))")
    case True
    then have "k y \<noteq> k x"
      using js_sub_self_not_positive [of "k x"] by auto
    with True Cons show ?thesis by auto
  next
    case False
    then show ?thesis by simp
  qed
qed

lemma filter_js_sort:
  "filter (\<lambda>a. k a = s) (js_sort (\<lambda>a b. js_sub (k b) (k a)) xs) = filter (\<lambda>a. k a = s) xs"
proof (induction xs)
  case Nil
  show ?case by simp
next
  case (Cons x xs)
  have "filter (\<lambda>a. k a = s) (js_sort (\<lambda>a b. js_sub (k b) (k a)) (x # xs)) =
        filter (\<lambda>a. k a = s) (x # js_sort (\<lambda>a b. js_sub (k b) (k a)) xs)"
    by (simp only: js_sort.simps filter_sort_insert)
  also have "\<dots> = filter (\<lambda>a. k a = s) (x # xs)"
    using Cons.IH by simp
  finally show ?case .
qed

lemma set_sort_insert: "set (sort_insert cmp x ys) = insert x (set ys)"
  by (induction ys) auto

lemma sorted_sort_insert:
  assumes "k x \<noteq> NaN" and "\<forall>y \<in> set ys. k y \<noteq> NaN"
    and "sorted_wrt js_ge (map k ys)"
  shows "sorted_wrt js_ge (map k (sort_insert (\<lambda>a b. js_sub (k b) (k a)) x ys))"
  using assms
proof (induction ys)
  case Nil
  show ?case by simp
next
  case (Cons y ys)
  show ?case
  proof (cases "js_positive (js_sub (k y) (k x))")
    case True
    then have yx: "js_ge (k y) (k x)"
      using positive_sub_iff [of "k x" "k y"] js_ge_total [of "k x" "k y"] Cons.prems by auto
    have "sorted_wrt js_ge (map k (sort_insert (\<lambda>a b. js_sub (k b) (k a)) x ys))"
      using Cons by simp
    moreover have "\<forall>z \<in> set (sort_insert (\<lambda>a b. js_sub (k b) (k a)) x ys). js_ge (k y) (k z)"
      using Cons.prems yx by (auto simp: set_sort_insert)
    ultimately show ?thesis using True by simp
  next
    case False
    then have xy: "js_ge (k x) (k y)"
      using positive_sub_iff [of "k x" "k y"] Cons.prems by auto
    have "\<forall>z \<in> set ys. js_ge (k x) (k z)"
      using Cons.prems xy by (auto intro: js_ge_trans)
    with False xy Cons.prems show ?thesis by simp
  qed
qed

lemma sorted_js_sort:
  "\<forall>x \<in> set xs. k x \<noteq> NaN \<Longrightarrow>
   sorted_wrt js_ge (map k (js_sort (\<lambda>a b. js_sub (k b) (k a)) xs))"
proof (induction xs)
  case Nil
  show ?case by simp
next
  case (Cons x xs)
  then show ?case
    by (simp add: sorted_sort_insert set_js_sort)
qed

lemma analyze_fields:
  "trendScore (analyze now t) = calculateTrendScore now t"
  "engagementRate (analyze now t) =
     toFixed2 (js_mul (js_div (js_add (likeCount t) (commentCount t)) (viewCount t)) (Num 100))"
  "viewCount (analyze now t) = viewCount t"
  "likeCount (analyze now t) = likeCount t"
  "commentCount (analyze now t) = commentCount t"
  "publishedAt (analyze now t) = publishedAt t"
  "title (analyze now t) = title t"
  "trend.truncate (analyze now t) = t"
  by (simp_all add: analyze_def trend.extend_def analyzed.fields_def trend.truncate_def Let_def)


lemma analyzeTrends_unfold:
  "analyzeTrends now trends =
     js_sort (\<lambda>a b. js_sub (trendScore b) (trendScore a)) (map (analyze now) trends)"
  by (simp add: analyzeTrends_def by_trendScore_def [abs_def])


lemma log10_values:
  "log 10 100 = (2::real)" "log 10 100000 = (5::real)" "log 10 1000000 = (6::real)"
proof -
  have "(100::real) = 10 ^ 2" "(100000::real) = 10 ^ 5" "(1000000::real) = 10 ^ 6" by simp_all
  then show "log 10 100 = (2::real)" "log 10 100000 = (5::real)" "log 10 1000000 = (6::real)"
    by (simp_all only: log_pow_cancel)
qed

lemmas score_defs = calculateTrendScore_def raw_score_def viewScore_def engagementScore_def
  recencyScore_def daysSincePublished_def js_sub_def round2_def

lemma example_scores:
  "calculateTrendScore example_now popular = Num (502 / 10)"
  "calculateTrendScore example_now zero_views = NaN"
  "calculateTrendScore example_now small_first = Num 40"
  "calculateTrendScore example_now small_second = Num 40"
  by (simp_all add: score_defs popular_def zero_views_def small_first_def small_second_def
        log10_values inf_of_sign_def sign_of_def)

text \<open>
  C5, as stated, fails. A record with no views has the score \<open>NaN\<close>, and \<open>NaN >= x\<close>
  and \<open>x >= NaN\<close> are false for every \<open>x\<close>: in whichever order the sort leaves the two
  records, the scores are not in non-increasing order. The comparator answers \<open>NaN\<close> for
  every pair with such a record, and between two records with the scores 40 and 50.2 it
  keeps them in their input order, the lower score first.
\<close>

theorem analyzeTrends_sorted_counterexample:
  "map trendScore (analyzeTrends example_now [zero_views, popular]) = [NaN, Num (502 / 10)] \<and>
   \<not> non_increasing [NaN, Num (502 / 10)] \<and> \<not> non_increasing [Num (502 / 10), NaN] \<and>
   map trendScore (analyzeTrends example_now [small_first, zero_views, popular]) =
     [Num 40, NaN, Num (502 / 10)] \<and>
   \<not> js_ge (Num 40) (Num (502 / 10))"
  by (simp add: analyzeTrends_unfold analyze_fields example_scores js_sub_def non_increasing_def)

text \<open>
  C5, amended. For every input list in which no record's score is \<open>NaN\<close>, the list that
  \<open>analyzeTrends\<close> returns is a permutation of the input with the derived fields added,
  its scores are in non-increasing order, and records with equal scores keep the order
  they had in the input. (The permutation and the stability hold for every input.)
\<close>

theorem analyzeTrends_sorted:
  assumes "\<forall>t \<in> set trends. calculateTrendScore now t \<noteq> NaN"
  shows "mset (map trend.truncate (analyzeTrends now trends)) = mset trends \<and>
         mset (analyzeTrends now trends) = mset (map (analyze now) trends) \<and>
         non_increasing (map trendScore (analyzeTrends now trends)) \<and>
         (\<forall>s. filter (\<lambda>a. trendScore a = s) (analyzeTrends now trends) =
              map (analyze now) (filter (\<lambda>t. calculateTrendScore now t = s) trends))"
proof (intro conjI allI)
  show perm: "mset (analyzeTrends now trends) = mset (map (analyze now) trends)"
    by (simp only: analyzeTrends_unfold mset_js_sort)
  have "mset (map trend.truncate (analyzeTrends now trends)) =
        image_mset trend.truncate (mset (map (analyze now) trends))"
    by (simp only: mset_map perm)
  then show "mset (map trend.truncate (analyzeTrends now trends)) = mset trends"
    by (simp add: analyze_fields multiset.map_comp comp_def)
  have "\<forall>a \<in> set (map (analyze now) trends). trendScore a \<noteq> NaN"
    using assms by (simp add: analyze_fields)
  then show "non_increasing (map trendScore (analyzeTrends now trends))"
    unfolding non_increasing_def analyzeTrends_unfold by (rule sorted_js_sort)
next
  fix s
  have "filter (\<lambda>a. trendScore a = s) (analyzeTrends now trends) =
        filter (\<lambda>a. trendScore a = s) (map (analyze now) trends)"
    unfolding analyzeTrends_unfold by (rule filter_js_sort)
  then show "filter (\<lambda>a. trendScore a = s) (analyzeTrends now trends) =
             map (analyze now) (filter (\<lambda>t. calculateTrendScore now t = s) trends)"
    by (simp add: filter_map comp_def analyze_fields)
qed

theorem analyzeTrends_sorted_witness:
  "calculateTrendScore example_now small_first \<noteq> NaN \<and>
   calculateTrendScore example_now popular \<noteq> NaN \<and>
   calculateTrendScore example_now small_second \<noteq> NaN \<and>
   non_increasing (map trendScore (analyzeTrends example_now [small_first, popular, small_second])) \<and>
   map trendScore (analyzeTrends example_now [small_first, popular, small_second]) =
     [Num (502 / 10), Num 40, Num 40] \<and>
   map title (analyzeTrends example_now [small_first, popular, small_second]) =
     [''popular'', ''first'', ''second'']"
proof -
  have h: "\<forall>t \<in> set [small_first, popular, small_second]. calculateTrendScore example_now t \<noteq> NaN"
    by (simp add: example_scores)
  have s: "analyzeTrends example_now [small_first, popular, small_second] =
             [analyze example_now popular, analyze example_now small_first,
              analyze example_now small_second]"
    by (simp add: analyzeTrends_unfold analyze_fields example_scores js_sub_def)
  have v: "map trendScore (analyzeTrends example_now [small_first, popular, small_second]) =
             [Num (502 / 10), Num 40, Num 40]"
    unfolding s by (simp add: analyze_fields example_scores)
  have w: "map title (analyzeTrends example_now [small_first, popular, small_second]) =
             [''popular'', ''first'', ''second'']"
    unfolding s by (simp add: analyze_fields popular_def small_first_def small_second_def)
  have n: "calculateTrendScore example_now small_first \<noteq> NaN"
    "calculateTrendScore example_now popular \<noteq> NaN"
    "calculateTrendScore example_now small_second \<noteq> NaN"
    by (simp_all add: example_scores)
  from analyzeTrends_sorted [OF h] n v w show ?thesis by blast
qed









text \<open>
  The engagement rate of the example in doubles: the quotient \<open>55000 / 1000000\<close> (and
  \<open>5500 / 100000\<close>, the same real number) is not a double, the nearest double is taken,
  and its product with 100 rounds to 5.5 exactly, as in the exact model.
\<close>

lemma example_rate_binary64:
  "2 powr (- 5) \<le> (55000 / 1000000 :: real) \<and> (55000 / 1000000 :: real) < 2 powr (- 4) \<and>
   binary64 (- 5) (55000 / 1000000) \<noteq> 55000 / 1000000 \<and>
   4 \<le> binary64 (- 5) (55000 / 1000000) * 100 \<and> binary64 (- 5) (55000 / 1000000) * 100 < 8 \<and>
   binary64 2 (binary64 (- 5) (55000 / 1000000) * 100) = 55 / 10"
  by (simp add: binary64_def ulp_def round_half_even_def Let_def powr_minus_divide)




subsection \<open>Trending topics of a niche\<close>

lemma placeholder_fields:
  "viewCount (with_placeholders v) = Num 100000"
  "likeCount (with_placeholders v) = Num 5000"
  "commentCount (with_placeholders v) = Num 500"
  "publishedAt (with_placeholders v) = publishedAt v"
  "title (with_placeholders v) = title v"
  by (simp_all add: with_placeholders_def video.extend_def trend.fields_def)



lemma placeholder_score:
  assumes "viewCount t = Num 100000" "likeCount t = Num 5000" "commentCount t = Num 500"
  shows "viewScore t = Num (5 / 10)" "engagementScore t = Num (55 / 1000)"
    "calculateTrendScore now t =
       toFixed2 (js_mul (js_add (Num (172 / 1000)) (js_mul (recencyScore now t) (Num (3 / 10))))
                        (Num 100))"
  using assms
  by (simp_all add: viewScore_def engagementScore_def calculateTrendScore_def raw_score_def
        log10_values)


lemma example_niche:
  "getTrendingTopicsForNiche example_search example_now ''Technology'' =
     Inr [analyze example_now (with_placeholders new_video),
          analyze example_now (with_placeholders old_video)]"
proof -
  have k: "getNicheKeywords ''Technology'' =
             Some [''tech'', ''AI'', ''software'', ''gadgets'', ''programming'']"
    by code_simp
  have r: "recencyScore example_now (with_placeholders new_video) = Num 1"
    "recencyScore example_now (with_placeholders old_video) = Num (1 / 2)"
    by (simp_all add: recencyScore_def daysSincePublished_def js_sub_def placeholder_fields
          new_video_def old_video_def)
  have s: "calculateTrendScore example_now (with_placeholders new_video) = Num (472 / 10)"
    "calculateTrendScore example_now (with_placeholders old_video) = Num (322 / 10)"
    by (simp_all add: placeholder_score [OF placeholder_fields(1,2,3)] r round2_def)
  show ?thesis
    by (simp add: getTrendingTopicsForNiche_def k searchTrendingKeywords_def example_search_def
          analyzeTrends_unfold analyze_fields s js_sub_def slice0_def)
qed


subsection \<open>The generation pipeline\<close>






lemma discover_topic_cases:
  "discover_topic p env topic niche autoDiscoverTrend trace =
     (if autoDiscoverTrend \<and> \<not> truthy topic
      then (case getTrendingTopicsForNiche (search p) (clock env) niche of
              Inl msg \<Rightarrow> (trace @ [TrendDiscovery], Inl (StepFailed TrendDiscovery msg))
            | Inr trends \<Rightarrow>
                (trace @ [TrendDiscovery],
                 Inr (Some (or_str (case trends of [] \<Rightarrow> None | t # _ \<Rightarrow> Some (title t))
                                   (''Trending '' @ niche @ '' topic'')))))
      else (trace, Inr topic))"
  by (simp add: discover_topic_def and_then_def call_def return_def split: sum.splits)




lemma example_run:
  "fst (generateCompleteContent example_providers example_environment no_topic_default) =
     [TrendDiscovery, ScriptGeneration, VoiceoverText, Voiceover, VisualPrompts,
      ThumbnailConcepts, SEOMetadata, BRollSuggestions, Notification]"
  "map_sum id c_topic (snd (generateCompleteContent example_providers example_environment no_topic_default)) = Inr (Some ''newer'')"
  by (simp_all add: generateCompleteContent_def discover_topic_cases and_then_def
        no_topic_default_def example_providers_def example_environment_def truthy_def
        example_niche [unfolded example_providers_def] or_str_def analyze_fields placeholder_fields
        new_video_def generate_steps_def call_def return_def notify_def Let_def)


subsection \<open>Publishing\<close>

lemma publish_loop_append:
  "publish_loop w c rep results ps = results @ publish_loop w c rep [] ps"
proof (induction ps arbitrary: results)
  case Nil
  show ?case by simp
next
  case (Cons p ps)
  show ?case
  proof (cases "rep p")
    case None
    then show ?thesis using Cons.IH [of results] by simp
  next
    case (Some pc)
    show ?thesis
    proof (cases "publish_switch w c p pc")
      case None
      with Some show ?thesis using Cons.IH [of results] by simp
    next
      case (Some r)
      with \<open>rep p = Some pc\<close> show ?thesis
        using Cons.IH [of "results @ [r]"] Cons.IH [of "[r]"] by simp
    qed
  qed
qed

lemma instagram_result:
  "r_platform (postToInstagram w c opts) = ''instagram''"
  "upstream_succeeds w ''instagram'' \<Longrightarrow> o_caption opts \<noteq> None \<Longrightarrow>
     r_success (postToInstagram w c opts) \<and> r_error (postToInstagram w c opts) = None"
  "upstream_fails w ''instagram'' \<Longrightarrow>
     \<not> r_success (postToInstagram w c opts) \<and> r_error (postToInstagram w c opts) \<noteq> None"
proof -
  show "r_platform (postToInstagram w c opts) = ''instagram''"
    by (simp add: postToInstagram_def failure_def Let_def split: option.splits sum.splits)
  show "r_success (postToInstagram w c opts) \<and> r_error (postToInstagram w c opts) = None"
    if "upstream_succeeds w ''instagram''" "o_caption opts \<noteq> None"
  proof -
    from that(1) have tok: "truthy (instagram_accessToken (config w))"
      and ok: "\<And>body headers. \<not> isl (axios_post w (instagram_media_url w) body headers)"
        "\<And>body headers. \<not> isl (axios_post w (instagram_publish_url w) body headers)"
      by (simp_all add: upstream_succeeds_def accessToken_def endpoints_def)
    from that(2) obtain caption where cap: "o_caption opts = Some caption" by auto
    show ?thesis
      using tok ok
      by (simp add: postToInstagram_def cap Let_def split: sum.splits) (metis isl_def)
  qed
  show "\<not> r_success (postToInstagram w c opts) \<and> r_error (postToInstagram w c opts) \<noteq> None"
    if "upstream_fails w ''instagram''"
  proof -
    from that have
      "(\<forall>body headers. isl (axios_post w (instagram_media_url w) body headers)) \<or>
       (\<forall>body headers. isl (axios_post w (instagram_publish_url w) body headers))"
      by (auto simp: upstream_fails_def endpoints_def)
    then show ?thesis
      by (auto simp: postToInstagram_def failure_def Let_def split: option.splits sum.splits)
         (metis sum.disc(2))+
  qed
qed

lemma tiktok_result:
  "r_platform (postToTikTok w c opts) = ''tiktok''"
  "upstream_succeeds w ''tiktok'' \<Longrightarrow> o_caption opts \<noteq> None \<Longrightarrow>
     r_success (postToTikTok w c opts) \<and> r_error (postToTikTok w c opts) = None"
  "upstream_fails w ''tiktok'' \<Longrightarrow>
     \<not> r_success (postToTikTok w c opts) \<and> r_error (postToTikTok w c opts) \<noteq> None"
proof -
  show "r_platform (postToTikTok w c opts) = ''tiktok''"
    by (simp add: postToTikTok_def failure_def Let_def split: option.splits sum.splits)
  show "r_success (postToTikTok w c opts) \<and> r_error (postToTikTok w c opts) = None"
    if "upstream_succeeds w ''tiktok''" "o_caption opts \<noteq> None"
  proof -
    from that(1) have tok: "truthy (tiktok_accessToken (config w))"
      and ok: "\<And>body headers. \<not> isl (axios_post w tiktok_upload_url body headers)"
      by (simp_all add: upstream_succeeds_def accessToken_def endpoints_def)
    from that(2) obtain caption where cap: "o_caption opts = Some caption" by auto
    show ?thesis
      using tok ok
      by (simp add: postToTikTok_def cap Let_def split: sum.splits) (metis isl_def)
  qed
  show "\<not> r_success (postToTikTok w c opts) \<and> r_error (postToTikTok w c opts) \<noteq> None"
    if "upstream_fails w ''tiktok''"
  proof -
    from that have "\<forall>body headers. isl (axios_post w tiktok_upload_url body headers)"
      by (auto simp: upstream_fails_def endpoints_def)
    then show ?thesis
      by (auto simp: postToTikTok_def failure_def Let_def split: option.splits sum.splits)
         (metis sum.disc(2))+
  qed
qed

lemma facebook_result:
  "r_platform (postToFacebook w c opts) = ''facebook''"
  "upstream_succeeds w ''facebook'' \<Longrightarrow> o_message opts \<noteq> None \<Longrightarrow> o_mediaUrl opts = None \<Longrightarrow>
     r_success (postToFacebook w c opts) \<and> r_error (postToFacebook w c opts) = None"
  "upstream_fails w ''facebook'' \<Longrightarrow> o_mediaUrl opts = None \<Longrightarrow>
     \<not> r_success (postToFacebook w c opts) \<and> r_error (postToFacebook w c opts) \<noteq> None"
proof -
  show "r_platform (postToFacebook w c opts) = ''facebook''"
    by (simp add: postToFacebook_def failure_def Let_def split: option.splits sum.splits)
  show "r_success (postToFacebook w c opts) \<and> r_error (postToFacebook w c opts) = None"
    if "upstream_succeeds w ''facebook''" "o_message opts \<noteq> None" "o_mediaUrl opts = None"
  proof -
    from that(1) have tok: "truthy (facebook_accessToken (config w))"
      and ok: "\<And>body headers. \<not> isl (axios_post w (facebook_feed_url w) body headers)"
      by (simp_all add: upstream_succeeds_def accessToken_def endpoints_def)
    from that(2) obtain message where msg: "o_message opts = Some message" by auto
    show ?thesis
      using tok ok that(3)
      by (simp add: postToFacebook_def msg Let_def truthy_def split: sum.splits) (metis isl_def)
  qed
  show "\<not> r_success (postToFacebook w c opts) \<and> r_error (postToFacebook w c opts) \<noteq> None"
    if "upstream_fails w ''facebook''" "o_mediaUrl opts = None"
  proof -
    from that have "\<forall>body headers. isl (axios_post w (facebook_feed_url w) body headers)"
      by (auto simp: upstream_fails_def endpoints_def)
    then show ?thesis
      using that(2)
      by (auto simp: postToFacebook_def failure_def Let_def truthy_def
               split: option.splits sum.splits)
         (metis sum.disc(2))+
  qed
qed

lemma linkedin_result:
  "r_platform (postToLinkedIn w c opts) = ''linkedin''"
  "upstream_succeeds w ''linkedin'' \<Longrightarrow> o_text opts \<noteq> None \<Longrightarrow>
     r_success (postToLinkedIn w c opts) \<and> r_error (postToLinkedIn w c opts) = None"
  "upstream_fails w ''linkedin'' \<Longrightarrow>
     \<not> r_success (postToLinkedIn w c opts) \<and> r_error (postToLinkedIn w c opts) \<noteq> None"
proof -
  show "r_platform (postToLinkedIn w c opts) = ''linkedin''"
    by (simp add: postToLinkedIn_def failure_def Let_def split: option.splits sum.splits)
  show "r_success (postToLinkedIn w c opts) \<and> r_error (postToLinkedIn w c opts) = None"
    if "upstream_succeeds w ''linkedin''" "o_text opts \<noteq> None"
  proof -
    from that(1) have tok: "truthy (linkedin_accessToken (config w))"
      and ok: "\<And>body headers. \<not> isl (axios_post w linkedin_posts_url body headers)"
      by (simp_all add: upstream_succeeds_def accessToken_def endpoints_def)
    from that(2) obtain t where t: "o_text opts = Some t" by auto
    show ?thesis
      using tok ok
      by (simp add: postToLinkedIn_def t Let_def split: sum.splits) (metis isl_def)
  qed
  show "\<not> r_success (postToLinkedIn w c opts) \<and> r_error (postToLinkedIn w c opts) \<noteq> None"
    if "upstream_fails w ''linkedin''"
  proof -
    from that have "\<forall>body headers. isl (axios_post w linkedin_posts_url body headers)"
      by (auto simp: upstream_fails_def endpoints_def)
    then show ?thesis
      by (auto simp: postToLinkedIn_def failure_def Let_def split: option.splits sum.splits)
         (metis sum.disc(2))+
  qed
qed

lemma payload_texts:
  "p_caption (repurposeForInstagram c) \<noteq> None"
  "p_caption (repurposeForTikTok c) \<noteq> None"
  "p_message (repurposeForFacebook c) \<noteq> None"
  "p_text (repurposeForLinkedIn c) \<noteq> None"
  by (simp_all add: repurposeForInstagram_def repurposeForTikTok_def repurposeForFacebook_def
        repurposeForLinkedIn_def Let_def)

text \<open>What the loop body does for one requested name.\<close>

lemma publish_step:
  assumes "p \<in> set ps0"
  shows "p \<notin> known_platforms \<Longrightarrow>
           publish_loop w c (repurposeContent c ps0) results (p # ps) =
           publish_loop w c (repurposeContent c ps0) results ps"
    and "p \<in> known_platforms \<Longrightarrow>
           \<exists>r. publish_loop w c (repurposeContent c ps0) results (p # ps) =
                 publish_loop w c (repurposeContent c ps0) (results @ [r]) ps \<and>
               r_platform r = p \<and>
               (upstream_succeeds w p \<longrightarrow> r_success r \<and> r_error r = None) \<and>
               (upstream_fails w p \<longrightarrow> \<not> r_success r \<and> r_error r \<noteq> None)"
proof -
  show "publish_loop w c (repurposeContent c ps0) results (p # ps) =
        publish_loop w c (repurposeContent c ps0) results ps"
    if "p \<notin> known_platforms"
    using that by (simp add: repurposeContent_lookup known_platforms_def)
  show "\<exists>r. publish_loop w c (repurposeContent c ps0) results (p # ps) =
                 publish_loop w c (repurposeContent c ps0) (results @ [r]) ps \<and>
               r_platform r = p \<and>
               (upstream_succeeds w p \<longrightarrow> r_success r \<and> r_error r = None) \<and>
               (upstream_fails w p \<longrightarrow> \<not> r_success r \<and> r_error r \<noteq> None)"
    if "p \<in> known_platforms"
  proof -
    from that consider "p = ''instagram''" | "p = ''tiktok''" | "p = ''facebook''"
      | "p = ''linkedin''"
      by (auto simp: known_platforms_def)
    then show ?thesis
    proof cases
      case 1
      let ?r = "postToInstagram w c
                \<lparr> o_mediaUrl = None, o_videoUrl = None, o_caption = p_caption (repurposeForInstagram c),
                  o_message = None, o_text = None,
                  o_hashtags = Some (p_hashtags (repurposeForInstagram c)) \<rparr>"
      have "publish_loop w c (repurposeContent c ps0) results (p # ps) =
            publish_loop w c (repurposeContent c ps0) (results @ [?r]) ps"
        using 1 assms by (simp add: repurposeContent_lookup publish_switch_def)
      moreover have "r_platform ?r = p \<and>
          (upstream_succeeds w p \<longrightarrow> r_success ?r \<and> r_error ?r = None) \<and>
          (upstream_fails w p \<longrightarrow> \<not> r_success ?r \<and> r_error ?r \<noteq> None)"
        using 1 by (simp add: instagram_result payload_texts)
      ultimately show ?thesis by blast
    next
      case 2
      let ?r = "postToTikTok w c
                \<lparr> o_mediaUrl = None, o_videoUrl = None, o_caption = p_caption (repurposeForTikTok c),
                  o_message = None, o_text = None,
                  o_hashtags = Some (p_hashtags (repurposeForTikTok c)) \<rparr>"
      have "publish_loop w c (repurposeContent c ps0) results (p # ps) =
            publish_loop w c (repurposeContent c ps0) (results @ [?r]) ps"
        using 2 assms by (simp add: repurposeContent_lookup publish_switch_def)
      moreover have "r_platform ?r = p \<and>
          (upstream_succeeds w p \<longrightarrow> r_success ?r \<and> r_error ?r = None) \<and>
          (upstream_fails w p \<longrightarrow> \<not> r_success ?r \<and> r_error ?r \<noteq> None)"
        using 2 by (simp add: tiktok_result payload_texts)
      ultimately show ?thesis by blast
    next
      case 3
      let ?r = "postToFacebook w c
                \<lparr> o_mediaUrl = None, o_videoUrl = None, o_caption = None,
                  o_message = p_message (repurposeForFacebook c), o_text = None,
                  o_hashtags = Some (p_hashtags (repurposeForFacebook c)) \<rparr>"
      have "publish_loop w c (repurposeContent c ps0) results (p # ps) =
            publish_loop w c (repurposeContent c ps0) (results @ [?r]) ps"
        using 3 assms by (simp add: repurposeContent_lookup publish_switch_def)
      moreover have "r_platform ?r = p \<and>
          (upstream_succeeds w p \<longrightarrow> r_success ?r \<and> r_error ?r = None) \<and>
          (upstream_fails w p \<longrightarrow> \<not> r_success ?r \<and> r_error ?r \<noteq> None)"
        using 3 by (simp add: facebook_result payload_texts)
      ultimately show ?thesis by blast
    next
      case 4
      let ?r = "postToLinkedIn w c
                \<lparr> o_mediaUrl = None, o_videoUrl = None, o_caption = None,
                  o_message = None, o_text = p_text (repurposeForLinkedIn c),
                  o_hashtags = Some (p_hashtags (repurposeForLinkedIn c)) \<rparr>"
      have "publish_loop w c (repurposeContent c ps0) results (p # ps) =
            publish_loop w c (repurposeContent c ps0) (results @ [?r]) ps"
        using 4 assms by (simp add: repurposeContent_lookup publish_switch_def)
      moreover have "r_platform ?r = p \<and>
          (upstream_succeeds w p \<longrightarrow> r_success ?r \<and> r_error ?r = None) \<and>
          (upstream_fails w p \<longrightarrow> \<not> r_success ?r \<and> r_error ?r \<noteq> None)"
        using 4 by (simp add: linkedin_result payload_texts)
      ultimately show ?thesis by blast
    qed
  qed
qed

lemma publish_loop_results:
  assumes "set ps \<subseteq> set ps0"
  shows "\<exists>rs. publish_loop w c (repurposeContent c ps0) [] ps = rs \<and>
           map r_platform rs = filter (\<lambda>p. p \<in> known_platforms) ps \<and>
           (\<forall>r \<in> set rs.
              (upstream_succeeds w (r_platform r) \<longrightarrow> r_success r \<and> r_error r = None) \<and>
              (upstream_fails w (r_platform r) \<longrightarrow> \<not> r_success r \<and> r_error r \<noteq> None))"
  using assms
proof (induction ps)
  case Nil
  show ?case by simp
next
  case (Cons p ps)
  then have p: "p \<in> set ps0" and ps: "set ps \<subseteq> set ps0" by simp_all
  from Cons.IH [OF ps] have IH:
    "map r_platform (publish_loop w c (repurposeContent c ps0) [] ps) =
       filter (\<lambda>p. p \<in> known_platforms) ps"
    "\<forall>r \<in> set (publish_loop w c (repurposeContent c ps0) [] ps).
        (upstream_succeeds w (r_platform r) \<longrightarrow> r_success r \<and> r_error r = None) \<and>
        (upstream_fails w (r_platform r) \<longrightarrow> \<not> r_success r \<and> r_error r \<noteq> None)"
    by simp_all
  show ?case
  proof (cases "p \<in> known_platforms")
    case False
    with publish_step(1) [OF p False, of w c "[]" ps] IH show ?thesis by simp
  next
    case True
    from publish_step(2) [OF p True, of w c "[]" ps] obtain r where r:
      "publish_loop w c (repurposeContent c ps0) [] (p # ps) =
         publish_loop w c (repurposeContent c ps0) [r] ps"
      "r_platform r = p"
      "upstream_succeeds w p \<longrightarrow> r_success r \<and> r_error r = None"
      "upstream_fails w p \<longrightarrow> \<not> r_success r \<and> r_error r \<noteq> None"
      by auto
    have "publish_loop w c (repurposeContent c ps0) [] (p # ps) =
            r # publish_loop w c (repurposeContent c ps0) [] ps"
      using r(1) publish_loop_append [of w c "repurposeContent c ps0" "[r]" ps] by simp
    with True r IH show ?thesis by simp
  qed
qed

text \<open>
  C2. Let one known platform's upstream call fail, and let the upstream calls of every
  other known platform in the list succeed. Then \<open>publishContent\<close> raises nothing and
  returns one record for each known name of the list, in the order of the list; the
  record of the failing platform has \<open>success\<close> false and carries an error message, and
  every other record has \<open>success\<close> true. The call as a whole raises exactly when its
  repurposing step raises, with the same message.
\<close>

theorem publishContent_isolates_failure:
  assumes "failing \<in> known_platforms" and "upstream_fails w failing"
    and "\<forall>p \<in> set platforms. p \<in> known_platforms \<and> p \<noteq> failing \<longrightarrow> upstream_succeeds w p"
  shows "(\<exists>results. publishContent w c platforms = Inr results \<and>
            map r_platform results = filter (\<lambda>p. p \<in> known_platforms) platforms \<and>
            (\<forall>r \<in> set results.
               if r_platform r = failing then \<not> r_success r \<and> r_error r \<noteq> None
               else r_success r \<and> r_error r = None)) \<and>
         (\<forall>msg. publishContent_with repurpose w c platforms = Inl msg \<longleftrightarrow>
                repurpose c platforms = Inl msg)"
proof
  from publish_loop_results [of platforms platforms w c] obtain rs where rs:
    "publish_loop w c (repurposeContent c platforms) [] platforms = rs"
    "map r_platform rs = filter (\<lambda>p. p \<in> known_platforms) platforms"
    "\<forall>r \<in> set rs.
        (upstream_succeeds w (r_platform r) \<longrightarrow> r_success r \<and> r_error r = None) \<and>
        (upstream_fails w (r_platform r) \<longrightarrow> \<not> r_success r \<and> r_error r \<noteq> None)"
    by auto
  have "if r_platform r = failing then \<not> r_success r \<and> r_error r \<noteq> None
        else r_success r \<and> r_error r = None" if "r \<in> set rs" for r
  proof -
    from that have "r_platform r \<in> set (map r_platform rs)" by simp
    then have "r_platform r \<in> set platforms \<and> r_platform r \<in> known_platforms"
      unfolding rs(2) by simp
    with assms rs(3) that show ?thesis by auto
  qed
  with rs show "\<exists>results. publishContent w c platforms = Inr results \<and>
            map r_platform results = filter (\<lambda>p. p \<in> known_platforms) platforms \<and>
            (\<forall>r \<in> set results.
               if r_platform r = failing then \<not> r_success r \<and> r_error r \<noteq> None
               else r_success r \<and> r_error r = None)"
    by (simp add: publishContent_def publishContent_with_def)
  show "\<forall>msg. publishContent_with repurpose w c platforms = Inl msg \<longleftrightarrow>
              repurpose c platforms = Inl msg"
    by (simp add: publishContent_with_def split: sum.splits)
qed

lemma example_world_upstream:
  "upstream_fails example_world ''facebook''"
  "upstream_succeeds example_world ''instagram''"
  by (simp_all add: upstream_fails_def upstream_succeeds_def endpoints_def accessToken_def
        facebook_feed_url_def instagram_media_url_def instagram_publish_url_def
        example_world_def truthy_def tpl_def)

theorem publishContent_isolates_failure_witness:
  "''facebook'' \<in> known_platforms \<and> upstream_fails example_world ''facebook'' \<and>
   upstream_succeeds example_world ''instagram'' \<and>
   (\<exists>results. publishContent example_world blank_content [''instagram'', ''facebook''] = Inr results \<and>
      map r_platform results = [''instagram'', ''facebook''] \<and>
      map r_success results = [True, False])"
proof -
  have k: "''facebook'' \<in> known_platforms"
    by (simp add: known_platforms_def)
  have others: "\<forall>p \<in> set [''instagram'', ''facebook''].
      p \<in> known_platforms \<and> p \<noteq> ''facebook'' \<longrightarrow> upstream_succeeds example_world p"
    by (simp add: example_world_upstream)
  from publishContent_isolates_failure [OF k example_world_upstream(1) others, of blank_content]
  obtain results where r:
    "publishContent example_world blank_content [''instagram'', ''facebook''] = Inr results"
    "map r_platform results =
       filter (\<lambda>p. p \<in> known_platforms) [''instagram'', ''facebook'']"
    "\<forall>r \<in> set results.
       if r_platform r = ''facebook'' then \<not> r_success r \<and> r_error r \<noteq> None
       else r_success r \<and> r_error r = None"
    by blast
  from r(2) have p: "map r_platform results = [''instagram'', ''facebook'']"
    by (simp add: known_platforms_def)
  then obtain r1 r2 where rs: "results = [r1, r2]" "r_platform r1 = ''instagram''"
    "r_platform r2 = ''facebook''"
    by (auto simp: map_eq_Cons_conv)
  from r(3) rs have s: "map r_success results = [True, False]"
    by simp
  have e: "\<exists>results.
      publishContent example_world blank_content [''instagram'', ''facebook''] = Inr results \<and>
      map r_platform results = [''instagram'', ''facebook''] \<and>
      map r_success results = [True, False]"
    by (rule exI [of _ results], intro conjI) (rule r(1) p s)+
  show ?thesis
    by (intro conjI) (rule k example_world_upstream e)+
qed

end
